theory Spec2Isabelle
  imports Complex_Main "HOL-Library.AList" "HOL-Library.Sublist"
begin

section \<open>Python values used by \<^verbatim>\<open>ffmpeg_normalize/_streams.py\<close>\<close>

text \<open>
  A Python \<^verbatim>\<open>float\<close> is one of the two infinities, a finite binary64 number or NaN. A
  finite float is the real number it denotes; \<^verbatim>\<open>-0.0\<close> is the number zero, which it
  equals. Python compares an \<^verbatim>\<open>int\<close> and a \<^verbatim>\<open>float\<close> by their exact numeric values, so the
  numeric settings of the program (which hold either) have this one type, an int being
  the number it denotes. Comparison and negation are exact and are defined here. What
  rounds or overflows is not: the operators \<^verbatim>\<open>+\<close> and \<^verbatim>\<open>-\<close> and the conversions of
  \<^verbatim>\<open>float()\<close> are parameters of the functions that use them.
\<close>

datatype pyfloat = NegInf | Fin real | PosInf | NaN

text \<open>The comparison operators: every comparison with NaN is false, except \<^verbatim>\<open>!=\<close>.\<close>

fun py_lt :: "pyfloat \<Rightarrow> pyfloat \<Rightarrow> bool" where
  "py_lt (Fin a) (Fin b) = (a < b)"
| "py_lt (Fin a) PosInf = True"
| "py_lt NegInf (Fin b) = True"
| "py_lt NegInf PosInf = True"
| "py_lt _ _ = False"

definition py_gt :: "pyfloat \<Rightarrow> pyfloat \<Rightarrow> bool" where
  "py_gt a b = py_lt b a"

definition py_eq :: "pyfloat \<Rightarrow> pyfloat \<Rightarrow> bool" where
  "py_eq a b = (a \<noteq> NaN \<and> a = b)"

definition py_ne :: "pyfloat \<Rightarrow> pyfloat \<Rightarrow> bool" where
  "py_ne a b = (\<not> py_eq a b)"

definition py_le :: "pyfloat \<Rightarrow> pyfloat \<Rightarrow> bool" where
  "py_le a b = (py_lt a b \<or> py_eq a b)"

text \<open>Negation, as in \<^verbatim>\<open>-float("inf")\<close> and \<^verbatim>\<open>-math.inf\<close>.\<close>

fun py_neg :: "pyfloat \<Rightarrow> pyfloat" where
  "py_neg NegInf = PosInf"
| "py_neg (Fin a) = Fin (- a)"
| "py_neg PosInf = NegInf"
| "py_neg NaN = NaN"

text \<open>
  The builtins \<^verbatim>\<open>min(a, b)\<close> and \<^verbatim>\<open>max(a, b)\<close> keep their first argument unless the second
  one is strictly smaller (larger).
\<close>

definition py_min :: "pyfloat \<Rightarrow> pyfloat \<Rightarrow> pyfloat" where
  "py_min a b = (if py_lt b a then b else a)"

definition py_max :: "pyfloat \<Rightarrow> pyfloat \<Rightarrow> pyfloat" where
  "py_max a b = (if py_gt b a then b else a)"

text \<open>
  The values \<^verbatim>\<open>json.loads\<close> produces. A dict is an association list: \<open>map_of\<close> reads a
  key and \<open>AList.update\<close> stores one in place.
\<close>

datatype json =
    JNull
  | JBool bool
  | JInt int
  | JFloat pyfloat
  | JStr string
  | JArr "json list"
  | JObj "(string \<times> json) list"

type_synonym dict = "(string \<times> json) list"

text \<open>
  The exceptions of the module. \<^verbatim>\<open>FFmpegNormalizeError\<close> is the one error class the
  program raises itself; the others come from builtins. Each carries its message.
\<close>

datatype error =
    FFmpegNormalizeError string
  | ValueError string
  | KeyError string
  | TypeError string
  | OverflowError string
  | JSONDecodeError string

text \<open>
  \<^verbatim>\<open>str(e)\<close>, as the f-string of the parser interpolates it. The text of a
  \<^verbatim>\<open>KeyError\<close> is the repr of the key: the key between single quotes (the keys looked up
  are the nine fixed names, which need no escaping).
\<close>

definition py_repr :: "string \<Rightarrow> string" where
  "py_repr s = [CHR 0x27] @ s @ [CHR 0x27]"

fun str_error :: "error \<Rightarrow> string" where
  "str_error (FFmpegNormalizeError m) = m"
| "str_error (ValueError m) = m"
| "str_error (KeyError k) = py_repr k"
| "str_error (TypeError m) = m"
| "str_error (OverflowError m) = m"
| "str_error (JSONDecodeError m) = m"

text \<open>
  \<^verbatim>\<open>float(v)\<close>. A float is returned as it is. An int of magnitude up to \<open>2 ^ 53\<close> is a
  binary64 number and is converted exactly, and a bool is the int 0 or 1. The conversion
  of a larger int (which rounds, or raises \<^verbatim>\<open>OverflowError\<close>) and the conversion of a
  string (Python's grammar of floats; \<^verbatim>\<open>ValueError\<close> otherwise) are Python's own: they are
  the parameter \<open>sf\<close>, asked only for such values. Anything else is a \<^verbatim>\<open>TypeError\<close>.
\<close>

type_synonym float_builtin = "json \<Rightarrow> error + pyfloat"

fun type_name :: "json \<Rightarrow> string" where
  "type_name JNull = ''NoneType''"
| "type_name (JBool _) = ''bool''"
| "type_name (JInt _) = ''int''"
| "type_name (JFloat _) = ''float''"
| "type_name (JStr _) = ''str''"
| "type_name (JArr _) = ''list''"
| "type_name (JObj _) = ''dict''"

fun py_float :: "float_builtin \<Rightarrow> json \<Rightarrow> error + pyfloat" where
  "py_float sf (JInt i) = (if \<bar>i\<bar> \<le> 2 ^ 53 then Inr (Fin (of_int i)) else sf (JInt i))"
| "py_float sf (JFloat x) = Inr x"
| "py_float sf (JBool b) = Inr (Fin (if b then 1 else 0))"
| "py_float sf (JStr s) = sf (JStr s)"
| "py_float sf v =
     Inl (TypeError (''float() argument must be a string or a real number, not ''
                     @ py_repr (type_name v)))"

text \<open>
  A number read without conversion (compared or stored as it is, so an int of any size
  keeps its value). The numeric settings are typed as numbers, so a value that is not a
  number cannot be stored in one or compared with one: the model raises \<^verbatim>\<open>TypeError\<close>
  there, as the comparison of a number with such a value does.
\<close>

fun as_number :: "json \<Rightarrow> error + pyfloat" where
  "as_number (JInt i) = Inr (Fin (of_int i))"
| "as_number (JFloat x) = Inr x"
| "as_number (JBool b) = Inr (Fin (if b then 1 else 0))"
| "as_number v =
     Inl (TypeError (''not supported between instances of ''
                     @ py_repr ''float'' @ '' and '' @ py_repr (type_name v)))"

text \<open>\<^verbatim>\<open>d[k]\<close> on a dict.\<close>

definition getitem :: "dict \<Rightarrow> string \<Rightarrow> error + json" where
  "getitem d k = (case map_of d k of None \<Rightarrow> Inl (KeyError k) | Some v \<Rightarrow> Inr v)"

subsection \<open>Logging\<close>

text \<open>
  A log record is its level, the text of the message with \<^verbatim>\<open>{}\<close> at each interpolated
  value, and the interpolated values in order.
\<close>

datatype level = DEBUG | INFO | WARNING

datatype arg = AStr string | ANum pyfloat | AInt int | AJson json

type_synonym log = "(level \<times> string \<times> arg list) list"

subsection \<open>A result with its log, and stateful code that may raise\<close>

type_synonym 'a logged = "log \<times> (error + 'a)"

type_synonym ('s, 'a) prog = "'s \<Rightarrow> 's \<times> (error + 'a)"

definition ret :: "'a \<Rightarrow> ('s, 'a) prog" where
  "ret a = (\<lambda>s. (s, Inr a))"

definition raise :: "error \<Rightarrow> ('s, 'a) prog" where
  "raise e = (\<lambda>s. (s, Inl e))"

definition lift :: "error + 'a \<Rightarrow> ('s, 'a) prog" where
  "lift r = (\<lambda>s. (s, r))"

definition bind :: "('s, 'a) prog \<Rightarrow> ('a \<Rightarrow> ('s, 'b) prog) \<Rightarrow> ('s, 'b) prog" where
  "bind m f = (\<lambda>s. case m s of (s', Inl e) \<Rightarrow> (s', Inl e) | (s', Inr a) \<Rightarrow> f a s')"

definition seq :: "('s, unit) prog \<Rightarrow> ('s, 'b) prog \<Rightarrow> ('s, 'b) prog" where
  "seq m n = bind m (\<lambda>_. n)"

definition when_do :: "bool \<Rightarrow> ('s, unit) prog \<Rightarrow> ('s, unit) prog" where
  "when_do b m = (if b then m else ret ())"

text \<open>The same for code without state: the first error stops the computation.\<close>

definition bind_e :: "error + 'a \<Rightarrow> ('a \<Rightarrow> error + 'b) \<Rightarrow> error + 'b" where
  "bind_e r f = (case r of Inl e \<Rightarrow> Inl e | Inr a \<Rightarrow> f a)"

section \<open>The objects a stream refers to\<close>

text \<open>
  The \<^verbatim>\<open>FFmpegNormalize\<close> object holds the caller's settings; of its attributes, those
  the methods below read. It is shared and mutable: streams and media files hold
  references to it, and the store maps a reference to the object's current value.
  \<^verbatim>\<open>sample_rate\<close> is \<^verbatim>\<open>None\<close> or an int.
\<close>

record FFmpegNormalize =
  normalization_type :: string
  target_level :: pyfloat
  loudness_range_target :: pyfloat
  true_peak :: pyfloat
  dual_mono :: bool
  keep_loudness_range_target :: bool
  dynamic :: bool
  sample_rate :: "int option"

type_synonym ref = nat

type_synonym store = "ref \<Rightarrow> FFmpegNormalize"

record MediaFile =
  ffmpeg_normalize :: ref
  input_file :: string
  output_file :: string

section \<open>The stream classes\<close>

text \<open>
  \<^verbatim>\<open>MediaStream.__init__(self, ffmpeg_normalize, media_file, stream_type, stream_id)\<close>
  stores its arguments under their own names.
\<close>

record ('m, 'f) MediaStream =
  ffmpeg_normalize :: 'f
  media_file :: 'm
  stream_type :: string
  stream_id :: int

definition MediaStream_init :: "'f \<Rightarrow> 'm \<Rightarrow> string \<Rightarrow> int \<Rightarrow> ('m, 'f) MediaStream" where
  "MediaStream_init ffmpeg_normalize_arg media_file_arg stream_type_arg stream_id_arg =
     \<lparr> ffmpeg_normalize = ffmpeg_normalize_arg,
       media_file = media_file_arg,
       stream_type = stream_type_arg,
       stream_id = stream_id_arg \<rparr>"

text \<open>
  \<^verbatim>\<open>VideoStream.__init__(self, ffmpeg_normalize, media_file, stream_id)\<close> and
  \<^verbatim>\<open>SubtitleStream.__init__\<close> call the base constructor with
  \<^verbatim>\<open>(media_file, ffmpeg_normalize, "video", stream_id)\<close>.
\<close>

definition VideoStream_init :: "'m \<Rightarrow> 'f \<Rightarrow> int \<Rightarrow> ('m, 'f) MediaStream" where
  "VideoStream_init ffmpeg_normalize_arg media_file_arg stream_id_arg =
     MediaStream_init media_file_arg ffmpeg_normalize_arg ''video'' stream_id_arg"

definition SubtitleStream_init :: "'m \<Rightarrow> 'f \<Rightarrow> int \<Rightarrow> ('m, 'f) MediaStream" where
  "SubtitleStream_init ffmpeg_normalize_arg media_file_arg stream_id_arg =
     MediaStream_init media_file_arg ffmpeg_normalize_arg ''subtitle'' stream_id_arg"

text \<open>
  \<^verbatim>\<open>AudioStream.__init__(self, ffmpeg_normalize, media_file, stream_id, sample_rate=None,
  bit_depth=None, duration=None)\<close>. The statistics are the dict
  \<^verbatim>\<open>{"ebu": None, "mean": None, "max": None}\<close>.
\<close>

record loudness_statistics =
  ebu :: "dict option"
  mean :: "pyfloat option"
  max' :: "pyfloat option"

record ('m, 'f) AudioStream = "('m, 'f) MediaStream" +
  loudness_statistics :: loudness_statistics
  sample_rate :: "int option"
  bit_depth :: "int option"
  duration :: "pyfloat option"

definition short_duration_warning :: string where
  "short_duration_warning =
     ''Audio stream has a duration of less than 3 seconds. '' @
     ''Normalization may not work. '' @
     ''See https://github.com/slhck/ffmpeg-normalize/issues/87 for more info.''"

text \<open>
  The constructor reads \<^verbatim>\<open>self.ffmpeg_normalize.normalization_type\<close> from the object its
  own attribute refers to, through the store \<open>h\<close>. A duration that is \<^verbatim>\<open>None\<close> or zero
  is false.
\<close>

definition AudioStream_init ::
  "store \<Rightarrow> 'm \<Rightarrow> ref \<Rightarrow> int \<Rightarrow> int option \<Rightarrow> int option \<Rightarrow> pyfloat option
     \<Rightarrow> log \<times> ('m, ref) AudioStream" where
  "AudioStream_init h ffmpeg_normalize_arg media_file_arg stream_id_arg
       sample_rate_arg bit_depth_arg duration_arg =
     (let base = MediaStream_init media_file_arg ffmpeg_normalize_arg ''audio'' stream_id_arg;
          self = \<lparr> ffmpeg_normalize = ffmpeg_normalize base,
                   media_file = media_file base,
                   stream_type = stream_type base,
                   stream_id = stream_id base,
                   loudness_statistics = \<lparr> ebu = None, mean = None, max' = None \<rparr>,
                   sample_rate = sample_rate_arg,
                   bit_depth = bit_depth_arg,
                   duration = duration_arg \<rparr>
      in (if normalization_type (h (ffmpeg_normalize self)) = ''ebu''
             \<and> (case duration self of
                    None \<Rightarrow> False
                  | Some d \<Rightarrow> d \<noteq> Fin 0 \<and> py_le d (Fin 3))
          then [(WARNING, short_duration_warning, [])]
          else [],
          self))"

section \<open>The clamp: \<^verbatim>\<open>AudioStream._constrain\<close>\<close>

definition constrain ::
  "pyfloat \<Rightarrow> pyfloat \<Rightarrow> pyfloat \<Rightarrow> string option \<Rightarrow> pyfloat logged" where
  "constrain number min_range max_range name =
     (if py_gt min_range max_range
      then ([], Inl (ValueError ''min must be smaller than max''))
      else
        (let result = py_max (py_min number max_range) min_range
         in ((if py_ne result number
              then (case name of
                      None \<Rightarrow> []
                    | Some n \<Rightarrow>
                        [(WARNING, ''Constraining {} to range of [{}, {}]: {} -> {}'',
                          [AStr n, ANum min_range, ANum max_range, ANum number, ANum result])])
              else []),
             Inr result)))"

section \<open>Peak/RMS measurement: the parsing of \<^verbatim>\<open>parse_astats\<close>\<close>





section \<open>A method's state: the stream, the store and the log\<close>

record state =
  self :: "(MediaFile, ref) AudioStream"
  heap :: store
  logger :: log

definition get :: "('s \<Rightarrow> 'a) \<Rightarrow> ('s, 'a) prog" where
  "get f = (\<lambda>s. (s, Inr (f s)))"

definition log_record :: "level \<Rightarrow> string \<Rightarrow> arg list \<Rightarrow> (state, unit) prog" where
  "log_record lvl text args = (\<lambda>s. (s\<lparr> logger := logger s @ [(lvl, text, args)] \<rparr>, Inr ()))"

definition logged :: "'a logged \<Rightarrow> (state, 'a) prog" where
  "logged r = (\<lambda>s. (s\<lparr> logger := logger s @ fst r \<rparr>, snd r))"

text \<open>\<^verbatim>\<open>self.media_file.ffmpeg_normalize\<close> and \<^verbatim>\<open>self.ffmpeg_normalize\<close>.\<close>

definition settings_ref :: "state \<Rightarrow> ref" where
  "settings_ref s = MediaFile.ffmpeg_normalize (media_file (self s))"

definition settings :: "state \<Rightarrow> FFmpegNormalize" where
  "settings s = heap s (settings_ref s)"

definition own_settings :: "state \<Rightarrow> FFmpegNormalize" where
  "own_settings s = heap s (ffmpeg_normalize (self s))"




section \<open>EBU measurement: \<^verbatim>\<open>AudioStream._parse_loudnorm_output\<close>\<close>

text \<open>
  The scan for the bounds. \<open>loudnorm_start\<close> is \<^verbatim>\<open>False\<close> (here \<open>None\<close>) or a line
  number, which is at least one and so true. The result is the pair of
  \<open>loudnorm_start\<close> and \<open>loudnorm_end\<close> when the loop ends.
\<close>

fun scan_lines :: "nat \<Rightarrow> nat option \<Rightarrow> string list \<Rightarrow> nat option \<times> nat option" where
  "scan_lines index loudnorm_start [] = (loudnorm_start, None)"
| "scan_lines index loudnorm_start (line # rest) =
     (if prefix ''[Parsed_loudnorm'' line
      then scan_lines (index + 1) (Some (index + 1)) rest
      else if loudnorm_start \<noteq> None \<and> prefix ''}'' line
      then (loudnorm_start, Some (index + 1))
      else scan_lines (index + 1) loudnorm_start rest)"

text \<open>\<^verbatim>\<open>sep.join(xs)\<close> and the slice \<^verbatim>\<open>xs[a:b]\<close> for indices that are not negative.\<close>

fun join :: "string \<Rightarrow> string list \<Rightarrow> string" where
  "join sep [] = []"
| "join sep [x] = x"
| "join sep (x # y # ys) = x @ sep @ join sep (y # ys)"

definition slice :: "'a list \<Rightarrow> nat \<Rightarrow> nat \<Rightarrow> 'a list" where
  "slice xs a b = take (b - a) (drop a xs)"

definition required_keys :: "string list" where
  "required_keys =
     [''input_i'', ''input_tp'', ''input_lra'', ''input_thresh'',
      ''output_i'', ''output_tp'', ''output_lra'', ''output_thresh'',
      ''target_offset'']"

text \<open>
  The body of the loop over the keys, for one key: \<^verbatim>\<open>float(loudnorm_stats[key])\<close> is
  evaluated anew in each condition and in the last branch.
\<close>

definition convert_field :: "float_builtin \<Rightarrow> dict \<Rightarrow> string \<Rightarrow> error + dict" where
  "convert_field sf loudnorm_stats key =
     bind_e (bind_e (getitem loudnorm_stats key) (py_float sf)) (\<lambda>x1.
       if py_eq x1 (py_neg PosInf)
       then Inr (AList.update key (JInt (- 99)) loudnorm_stats)
       else bind_e (bind_e (getitem loudnorm_stats key) (py_float sf)) (\<lambda>x2.
         if py_eq x2 PosInf
         then Inr (AList.update key (JInt 0) loudnorm_stats)
         else bind_e (bind_e (getitem loudnorm_stats key) (py_float sf)) (\<lambda>x3.
           Inr (AList.update key (JFloat x3) loudnorm_stats))))"

fun convert_fields :: "float_builtin \<Rightarrow> string list \<Rightarrow> dict \<Rightarrow> error + dict" where
  "convert_fields sf [] loudnorm_stats = Inr loudnorm_stats"
| "convert_fields sf (key # keys) loudnorm_stats =
     bind_e (convert_field sf loudnorm_stats key) (convert_fields sf keys)"

text \<open>
  The loop on what \<^verbatim>\<open>json.loads\<close> returned: subscripting a value that is not a dict with
  a string raises \<^verbatim>\<open>TypeError\<close> at the first key.
\<close>

fun subscript_error :: "json \<Rightarrow> string" where
  "subscript_error (JArr _) = ''list indices must be integers or slices, not str''"
| "subscript_error (JStr _) = ''string indices must be integers, not '' @ py_repr ''str''"
| "subscript_error v = py_repr (type_name v) @ '' object is not subscriptable''"

definition validate :: "float_builtin \<Rightarrow> json \<Rightarrow> error + dict" where
  "validate sf loudnorm_stats =
     (case loudnorm_stats of
        JObj d \<Rightarrow> convert_fields sf required_keys d
      | v \<Rightarrow> Inl (TypeError (subscript_error v)))"

definition no_output_message :: string where
  "no_output_message = ''Could not parse loudnorm stats; no loudnorm-related output found''"

definition wrong_json_message :: string where
  "wrong_json_message = ''Could not parse loudnorm stats; wrong JSON format in string: ''"

text \<open>
  \<^verbatim>\<open>json.loads\<close> is a parameter: \<open>Inl\<close> the \<^verbatim>\<open>JSONDecodeError\<close> it raises. Every exception
  in the \<^verbatim>\<open>try\<close> block becomes an \<^verbatim>\<open>FFmpegNormalizeError\<close> that ends with its text.
\<close>

definition except_clause :: "error + 'a \<Rightarrow> error + 'a" where
  "except_clause r =
     (case r of
        Inl e \<Rightarrow> Inl (FFmpegNormalizeError (wrong_json_message @ str_error e))
      | Inr a \<Rightarrow> Inr a)"

definition parse_loudnorm_output ::
  "(string \<Rightarrow> error + json) \<Rightarrow> float_builtin \<Rightarrow> string list \<Rightarrow> dict logged" where
  "parse_loudnorm_output json_loads sf output_lines =
     (case scan_lines 0 None output_lines of
        (Some loudnorm_start, Some loudnorm_end) \<Rightarrow>
          (case json_loads (join [CHR 0x0A] (slice output_lines loudnorm_start loudnorm_end)) of
             Inl e \<Rightarrow> ([], except_clause (Inl e))
           | Inr loudnorm_stats \<Rightarrow>
               ([(DEBUG, ''Loudnorm stats parsed: {}'', [AJson loudnorm_stats])],
                except_clause (validate sf loudnorm_stats)))
      | _ \<Rightarrow> ([], Inl (FFmpegNormalizeError no_output_message)))"

text \<open>
  The rule of the specification for one field: negative infinity is stored as -99,
  positive infinity as 0, any other float as it is.
\<close>

definition sentinel :: "pyfloat \<Rightarrow> json" where
  "sentinel x = (if x = NegInf then JInt (- 99) else if x = PosInf then JInt 0 else JFloat x)"

text \<open>
  The bounds as the specification words them: the body starts after the first line that
  begins with the header marker and ends with the first later line that is exactly a
  closing brace.
\<close>

definition claimed_bounds :: "string list \<Rightarrow> (nat \<times> nat) option" where
  "claimed_bounds output_lines =
     (let before = takeWhile (\<lambda>l. \<not> prefix ''[Parsed_loudnorm'' l) output_lines;
          after = drop (length before + 1) output_lines
      in if length before < length output_lines \<and> ''}'' \<in> set after
         then Some (length before + 1,
                    length before + 1 + length (takeWhile (\<lambda>l. l \<noteq> ''}'') after) + 1)
         else None)"

text \<open>The bounds the method finds, when it does not raise.\<close>

definition found_bounds :: "string list \<Rightarrow> (nat \<times> nat) option" where
  "found_bounds output_lines =
     (case scan_lines 0 None output_lines of
        (Some loudnorm_start, Some loudnorm_end) \<Rightarrow> Some (loudnorm_start, loudnorm_end)
      | _ \<Rightarrow> None)"

section \<open>The second pass: \<^verbatim>\<open>get_second_pass_opts_ebu\<close>\<close>

text \<open>
  Reads of \<^verbatim>\<open>self.loudness_statistics["ebu"][key]\<close>: as it is, converted by \<^verbatim>\<open>float\<close>,
  and as a number.
\<close>

definition read_stat :: "string \<Rightarrow> (state, json) prog" where
  "read_stat key =
     (\<lambda>s. (s, case ebu (loudness_statistics (self s)) of
                 None \<Rightarrow> Inl (TypeError (py_repr ''NoneType'' @ '' object is not subscriptable''))
               | Some d \<Rightarrow> getitem d key))"

definition read_float :: "float_builtin \<Rightarrow> string \<Rightarrow> (state, pyfloat) prog" where
  "read_float sf key = bind (read_stat key) (\<lambda>v. lift (py_float sf v))"

definition read_number :: "string \<Rightarrow> (state, pyfloat) prog" where
  "read_number key = bind (read_stat key) (\<lambda>v. lift (as_number v))"

text \<open>\<^verbatim>\<open>self.loudness_statistics["ebu"][key] = v\<close>.\<close>

definition write_stat :: "string \<Rightarrow> json \<Rightarrow> (state, unit) prog" where
  "write_stat key v =
     (\<lambda>s. case ebu (loudness_statistics (self s)) of
            None \<Rightarrow> (s, Inl (TypeError (py_repr ''NoneType''
                                @ '' object does not support item assignment'')))
          | Some d \<Rightarrow>
              (s\<lparr> self := (self s)\<lparr> loudness_statistics :=
                    (loudness_statistics (self s))\<lparr> ebu := Some (AList.update key v d) \<rparr> \<rparr> \<rparr>,
               Inr ()))"

text \<open>\<^verbatim>\<open>self.media_file.ffmpeg_normalize.loudness_range_target = x\<close>, in the store.\<close>

definition set_loudness_range_target :: "pyfloat \<Rightarrow> (state, unit) prog" where
  "set_loudness_range_target x =
     (\<lambda>s. (s\<lparr> heap := (heap s)(settings_ref s :=
                 (settings s)\<lparr> loudness_range_target := x \<rparr>) \<rparr>, Inr ()))"

definition first_pass_message :: string where
  "first_pass_message = ''First pass not run, you must call parse_loudnorm_stats first''"

definition capping_warning :: string where
  "capping_warning =
     ''Input file had measured input loudness greater than zero ({}), capping at 0''"

definition keeping_message :: string where
  "keeping_message = ''Keeping target loudness range in second pass loudnorm filter''"

definition fallback_warning :: string where
  "fallback_warning =
     ''Input file had loudness range of {}, which is larger than the loudness range target ({}). '' @
     ''Normalization will revert to dynamic mode. Choose a higher target loudness range if you want linear normalization. '' @
     ''Alternatively, use the --keep-loudness-range-target option to keep the target loudness range from the input.''"

definition sample_rate_warning :: string where
  "sample_rate_warning =
     ''In dynamic mode, the sample rate will automatically be set to 192 kHz by the loudnorm filter. '' @
     ''Specify -ar/--sample-rate to override it.''"

text \<open>The values of the filter options: numbers and strings.\<close>

datatype optval = ONum pyfloat | OStr string

type_synonym opts = "(string \<times> optval) list"

text \<open>\<^verbatim>\<open>self._constrain(float(stats[key]), lo, hi, name=key)\<close>.\<close>

definition constrained ::
  "float_builtin \<Rightarrow> string \<Rightarrow> pyfloat \<Rightarrow> pyfloat \<Rightarrow> (state, pyfloat) prog" where
  "constrained sf key lo hi =
     bind (read_float sf key) (\<lambda>x. logged (constrain x lo hi (Some key)))"

text \<open>
  The first part of the method, up to the warning about the sample rate. Its value is
  the local variable \<^verbatim>\<open>will_use_dynamic_mode\<close>. An \<^verbatim>\<open>"ebu"\<close> entry that is \<^verbatim>\<open>None\<close> or
  an empty dict is false.
\<close>

definition decide_dynamic_mode :: "float_builtin \<Rightarrow> (state, bool) prog" where
  "decide_dynamic_mode sf =
     bind (get (\<lambda>s. ebu (loudness_statistics (self s)))) (\<lambda>e.
     if e = None \<or> e = Some [] then raise (FFmpegNormalizeError first_pass_message)
     else
     bind (read_float sf ''input_i'') (\<lambda>input_i.
     seq (when_do (py_gt input_i (Fin 0))
            (seq (bind (read_stat ''input_i'') (\<lambda>v. log_record WARNING capping_warning [AJson v]))
                 (write_stat ''input_i'' (JInt 0))))
     (bind (get (\<lambda>s. dynamic (settings s))) (\<lambda>will_use_dynamic_mode.
     seq (bind (get (\<lambda>s. keep_loudness_range_target (settings s))) (\<lambda>keep.
            when_do keep
              (seq (log_record DEBUG keeping_message [])
                   (bind (read_number ''input_lra'') set_loudness_range_target))))
     (bind (get (\<lambda>s. loudness_range_target (settings s))) (\<lambda>target.
      bind (read_number ''input_lra'') (\<lambda>input_lra.
      bind (if py_lt target input_lra \<and> \<not> will_use_dynamic_mode
            then seq (log_record WARNING fallback_warning [ANum input_lra, ANum target])
                     (ret True)
            else ret will_use_dynamic_mode) (\<lambda>will_use_dynamic_mode.
      seq (bind (get (\<lambda>s. FFmpegNormalize.sample_rate (own_settings s))) (\<lambda>rate.
             when_do (will_use_dynamic_mode \<and> (rate = None \<or> rate = Some 0))
               (log_record WARNING sample_rate_warning [])))
          (ret will_use_dynamic_mode)))))))))"

text \<open>The second part: the dict \<^verbatim>\<open>opts\<close>, in the order of its keys.\<close>

definition build_opts :: "float_builtin \<Rightarrow> (state, opts) prog" where
  "build_opts sf =
     bind (get settings) (\<lambda>c.
     bind (constrained sf ''target_offset'' (Fin (- 99)) (Fin 99)) (\<lambda>offset.
     bind (constrained sf ''input_i'' (Fin (- 99)) (Fin 0)) (\<lambda>measured_i.
     bind (constrained sf ''input_lra'' (Fin 0) (Fin 99)) (\<lambda>measured_lra.
     bind (constrained sf ''input_tp'' (Fin (- 99)) (Fin 99)) (\<lambda>measured_tp.
     bind (constrained sf ''input_thresh'' (Fin (- 99)) (Fin 0)) (\<lambda>measured_thresh.
     ret ([(''i'', ONum (target_level c)),
           (''lra'', ONum (loudness_range_target c)),
           (''tp'', ONum (true_peak c)),
           (''offset'', ONum offset),
           (''measured_i'', ONum measured_i),
           (''measured_lra'', ONum measured_lra),
           (''measured_tp'', ONum measured_tp),
           (''measured_thresh'', ONum measured_thresh),
           (''linear'', OStr (if dynamic c then ''false'' else ''true'')),
           (''print_format'', OStr ''json'')]
          @ (if dual_mono c then [(''dual_mono'', OStr ''true'')] else []))))))))"

definition second_pass_opts_ebu :: "float_builtin \<Rightarrow> (state, opts) prog" where
  "second_pass_opts_ebu sf = bind (decide_dynamic_mode sf) (\<lambda>_. build_opts sf)"

text \<open>
  The method returns \<^verbatim>\<open>"loudnorm=" + dict_to_filter_opts(opts)\<close>. The serialiser
  \<^verbatim>\<open>dict_to_filter_opts\<close> belongs to \<^verbatim>\<open>_cmd_utils\<close> and is a parameter.
\<close>

definition get_second_pass_opts_ebu ::
  "float_builtin \<Rightarrow> (opts \<Rightarrow> string) \<Rightarrow> (state, string) prog" where
  "get_second_pass_opts_ebu sf dict_to_filter_opts =
     bind (second_pass_opts_ebu sf) (\<lambda>opts. ret (''loudnorm='' @ dict_to_filter_opts opts))"

section \<open>The second pass: \<^verbatim>\<open>get_second_pass_opts_peakrms\<close>\<close>

text \<open>
  The operators \<^verbatim>\<open>+\<close> and \<^verbatim>\<open>-\<close> of Python are the parameters \<open>add\<close> and \<open>sub\<close>. On two floats
  they are binary64 arithmetic, which rounds and raises nothing; an int operand is
  converted first, which raises \<^verbatim>\<open>OverflowError\<close> for an int outside the range of floats.
  The text of a float in the f-string that is returned is the parameter \<open>fmt\<close>. A
  statistic that is still \<^verbatim>\<open>None\<close> raises \<^verbatim>\<open>TypeError\<close> where it is used in arithmetic.
\<close>

type_synonym float_op = "pyfloat \<Rightarrow> pyfloat \<Rightarrow> error + pyfloat"

definition operand :: "(loudness_statistics \<Rightarrow> pyfloat option) \<Rightarrow> (state, pyfloat) prog" where
  "operand field =
     (\<lambda>s. (s, case field (loudness_statistics (self s)) of
                 None \<Rightarrow> Inl (TypeError ''unsupported operand type(s)'')
               | Some x \<Rightarrow> Inr x))"

definition get_second_pass_opts_peakrms ::
  "float_op \<Rightarrow> float_op \<Rightarrow> (pyfloat \<Rightarrow> string) \<Rightarrow> (state, string) prog" where
  "get_second_pass_opts_peakrms add sub fmt =
     bind (get (\<lambda>s. normalization_type (settings s))) (\<lambda>normalization_type.
     bind (get (\<lambda>s. target_level (settings s))) (\<lambda>target_level.
     bind (if normalization_type = ''peak''
           then bind (lift (add (Fin 0) target_level)) (\<lambda>t.
                bind (operand max') (\<lambda>m. lift (sub t m)))
           else if normalization_type = ''rms''
           then bind (operand mean) (\<lambda>m. lift (sub target_level m))
           else raise (FFmpegNormalizeError
                         ''Can only set adjustment for peak and RMS normalization'')) (\<lambda>adjustment.
     seq (bind (get (\<lambda>s. stream_id (self s))) (\<lambda>i.
            log_record INFO ''Adjusting stream {} by {} dB to reach {}''
              [AInt i, ANum adjustment, ANum target_level]))
     (bind (operand max') (\<lambda>m.
      bind (lift (add m adjustment)) (\<lambda>clipping.
      seq (when_do (py_gt clipping (Fin 0))
             (bind (operand max') (\<lambda>m'.
              bind (lift (add m' adjustment)) (\<lambda>clipping'.
                log_record WARNING ''Adjusting will lead to clipping of {} dB''
                  [ANum clipping']))))
          (ret (''volume='' @ fmt adjustment @ ''dB''))))))))"

text \<open>
  A report as validation leaves it: each of the nine keys has a float or an int that
  \<^verbatim>\<open>float\<close> converts exactly (validation stores the ints -99 and 0). The planner reads its
  statistics from such a dict.
\<close>

fun is_number :: "json \<Rightarrow> bool" where
  "is_number (JInt i) = (\<bar>i\<bar> \<le> 2 ^ 53)"
| "is_number (JFloat _) = True"
| "is_number _ = False"

definition validated :: "dict \<Rightarrow> bool" where
  "validated d =
     list_all (\<lambda>k. case map_of d k of None \<Rightarrow> False | Some v \<Rightarrow> is_number v) required_keys"




section \<open>Concrete objects for the examples\<close>

definition example_settings :: FFmpegNormalize where
  "example_settings =
     \<lparr> normalization_type = ''ebu'', target_level = Fin (- 23), loudness_range_target = Fin 7,
       true_peak = Fin (- 2), dual_mono = False, keep_loudness_range_target = False,
       dynamic = False, FFmpegNormalize.sample_rate = None \<rparr>"

definition example_file :: MediaFile where
  "example_file =
     \<lparr> MediaFile.ffmpeg_normalize = 0, input_file = ''in.wav'', output_file = ''out.wav'' \<rparr>"

text \<open>
  A state whose stream was built by the constructor (called with the media file and the
  reference where its parameters \<^verbatim>\<open>ffmpeg_normalize\<close> and \<^verbatim>\<open>media_file\<close> stand), with given
  statistics, every reference of the store pointing to the settings \<open>c\<close>.
\<close>

definition example_state :: "FFmpegNormalize \<Rightarrow> loudness_statistics \<Rightarrow> state" where
  "example_state c st =
     \<lparr> self = (snd (AudioStream_init (\<lambda>_. c) example_file 0 1 None None None))
                \<lparr> loudness_statistics := st \<rparr>,
       heap = (\<lambda>_. c),
       logger = [] \<rparr>"

text \<open>
  An instance of the conversion for the examples. It gives what \<^verbatim>\<open>float\<close> gives on the
  strings \<^verbatim>\<open>-inf\<close>, \<^verbatim>\<open>inf\<close>, \<^verbatim>\<open>9.50\<close>, \<^verbatim>\<open>-23.0\<close> and \<^verbatim>\<open>-1.5\<close>, on strings that are not
  floats (such as \<^verbatim>\<open>abc\<close> and \<^verbatim>\<open>--\<close>) and on ints of magnitude \<open>2 ^ 1024\<close> or more; the
  examples ask it for no other value.
\<close>

definition example_float :: float_builtin where
  "example_float v =
     (case v of
        JStr s \<Rightarrow>
          (if s = ''-inf'' then Inr NegInf
           else if s = ''inf'' then Inr PosInf
           else if s = ''9.50'' then Inr (Fin 9.5)
           else if s = ''-23.0'' then Inr (Fin (- 23))
           else if s = ''-1.5'' then Inr (Fin (- 1.5))
           else Inl (ValueError (''could not convert string to float: '' @ py_repr s)))
      | JInt i \<Rightarrow>
          (if \<bar>i\<bar> < 2 ^ 1024 then Inr (Fin (of_int i))
           else Inl (OverflowError ''int too large to convert to float''))
      | _ \<Rightarrow> Inl (TypeError ''float() argument must be a string or a real number''))"

text \<open>
  Addition and subtraction without rounding: what \<^verbatim>\<open>+\<close> and \<^verbatim>\<open>-\<close> give on two floats whose
  exact sum (difference) is a binary64 number or which are not both finite, as in the
  examples.
\<close>

fun exact_add :: float_op where
  "exact_add (Fin a) (Fin b) = Inr (Fin (a + b))"
| "exact_add NaN _ = Inr NaN"
| "exact_add _ NaN = Inr NaN"
| "exact_add PosInf NegInf = Inr NaN"
| "exact_add NegInf PosInf = Inr NaN"
| "exact_add PosInf _ = Inr PosInf"
| "exact_add _ PosInf = Inr PosInf"
| "exact_add NegInf _ = Inr NegInf"
| "exact_add _ NegInf = Inr NegInf"

definition exact_sub :: float_op where
  "exact_sub a b = exact_add a (py_neg b)"

definition example_report :: dict where
  "example_report =
     [(''input_i'', JStr ''-inf''),
      (''input_tp'', JFloat PosInf),
      (''input_lra'', JStr ''9.50''),
      (''input_thresh'', JFloat (Fin (- 33))),
      (''output_i'', JFloat (Fin (- 23))),
      (''output_tp'', JFloat (Fin (- 2))),
      (''output_lra'', JFloat (Fin 7)),
      (''output_thresh'', JFloat (Fin (- 34))),
      (''normalization_type'', JStr ''dynamic''),
      (''target_offset'', JInt 1)]"

definition example_measured :: dict where
  "example_measured =
     [(''input_i'', JFloat (Fin (- 27))),
      (''input_tp'', JFloat (Fin (- 4))),
      (''input_lra'', JFloat (Fin 12)),
      (''input_thresh'', JFloat (Fin (- 38))),
      (''output_i'', JFloat (Fin (- 23))),
      (''output_tp'', JFloat (Fin (- 2))),
      (''output_lra'', JFloat (Fin 7)),
      (''output_thresh'', JFloat (Fin (- 33))),
      (''normalization_type'', JStr ''dynamic''),
      (''target_offset'', JFloat (Fin 150))]"

section \<open>Unfolding the examples\<close>

lemmas planner_defs =
  second_pass_opts_ebu_def decide_dynamic_mode_def build_opts_def constrained_def
  bind_def seq_def get_def ret_def raise_def lift_def when_do_def logged_def
  read_float_def read_number_def read_stat_def write_stat_def log_record_def
  set_loudness_range_target_def getitem_def settings_def settings_ref_def own_settings_def
  constrain_def py_max_def py_min_def py_gt_def py_ne_def py_eq_def Let_def

lemmas example_defs =
  example_state_def example_settings_def example_file_def AudioStream_init_def
  MediaStream_init_def

lemma example_state_simps:
  "settings (example_state c st) = c"
  "own_settings (example_state c st) = c"
  "settings_ref (example_state c st) = 0"
  "loudness_statistics (self (example_state c st)) = st"
  "logger (example_state c st) = []"
  "heap (example_state c st) = (\<lambda>_. c)"
  "stream_id (self (example_state c st)) = 1"
  "input_file (media_file (self (example_state c st))) = ''in.wav''"
  by (simp_all add: example_defs settings_def own_settings_def settings_ref_def Let_def)

lemma example_measured_validated: "validated example_measured"
  by (simp add: validated_def required_keys_def example_measured_def)

section \<open>The constructors\<close>

text \<open>
  Claim C10. A stream built by \<^verbatim>\<open>VideoStream\<close>, \<^verbatim>\<open>SubtitleStream\<close> or \<^verbatim>\<open>AudioStream\<close> has
  in its attribute \<^verbatim>\<open>media_file\<close> the value passed for the parameter
  \<^verbatim>\<open>ffmpeg_normalize\<close> (the first argument, \<open>a\<close>) and in its attribute
  \<^verbatim>\<open>ffmpeg_normalize\<close> the value passed for the parameter \<^verbatim>\<open>media_file\<close> (the second
  argument), because each subclass hands the two to the base constructor in reversed
  order.
\<close>

theorem constructors_swap_arguments:
  "media_file (VideoStream_init a b i) = a
   \<and> MediaStream.ffmpeg_normalize (VideoStream_init a b i) = b
   \<and> media_file (SubtitleStream_init a b i) = a
   \<and> MediaStream.ffmpeg_normalize (SubtitleStream_init a b i) = b
   \<and> media_file (snd (AudioStream_init h a r i sr bd du)) = a
   \<and> MediaStream.ffmpeg_normalize (snd (AudioStream_init h a r i sr bd du)) = r"
  by (simp add: VideoStream_init_def SubtitleStream_init_def AudioStream_init_def
      MediaStream_init_def Let_def)

section \<open>The clamp\<close>

text \<open>
  Claim C7. For a range with \<open>min_range \<le> max_range\<close>, \<^verbatim>\<open>_constrain\<close> returns
  \<^verbatim>\<open>max(min(number, max_range), min_range)\<close>: a number inside the range is returned
  unchanged and nothing is logged; a number below the range gives the lower bound and
  one above it the upper bound; the result of a number that is not NaN lies in the
  range, and for finite numbers it is the mathematical clamp. When the result differs
  from the number, exactly one record is logged, at warning level, with the field name
  passed, the bounds, the number and the result. Every call in the file passes a name;
  the parameter defaults to \<^verbatim>\<open>None\<close>, and then nothing is logged. With
  \<open>min_range > max_range\<close> the call raises \<^verbatim>\<open>ValueError\<close>.
\<close>

theorem constrain_clamps:
  "(py_le min_range max_range \<longrightarrow>
     (\<exists>result.
        constrain number min_range max_range name =
          (if py_ne result number
           then (case name of
                   None \<Rightarrow> []
                 | Some n \<Rightarrow>
                     [(WARNING, ''Constraining {} to range of [{}, {}]: {} -> {}'',
                       [AStr n, ANum min_range, ANum max_range, ANum number, ANum result])])
           else [],
           Inr result)
        \<and> result = py_max (py_min number max_range) min_range
        \<and> (py_le min_range number \<and> py_le number max_range \<longrightarrow>
             result = number \<and> \<not> py_ne result number)
        \<and> (py_lt number min_range \<longrightarrow> result = min_range)
        \<and> (py_gt number max_range \<longrightarrow> result = max_range)
        \<and> (number \<noteq> NaN \<longrightarrow> py_le min_range result \<and> py_le result max_range)
        \<and> (\<forall>v lo hi. number = Fin v \<and> min_range = Fin lo \<and> max_range = Fin hi \<longrightarrow>
             result = Fin (max (min v hi) lo))))
   \<and> (py_gt min_range max_range \<longrightarrow>
        constrain number min_range max_range name =
          ([], Inl (ValueError ''min must be smaller than max'')))"
  by (cases number; cases min_range; cases max_range)
     (auto simp: constrain_def py_le_def py_gt_def py_eq_def py_ne_def py_max_def py_min_def
        Let_def)

theorem constrain_clamps_witness:
  "py_le (Fin (- 99)) (Fin 99)
   \<and> constrain (Fin 150) (Fin (- 99)) (Fin 99) (Some ''target_offset'') =
       ([(WARNING, ''Constraining {} to range of [{}, {}]: {} -> {}'',
          [AStr ''target_offset'', ANum (Fin (- 99)), ANum (Fin 99), ANum (Fin 150),
           ANum (Fin 99)])],
        Inr (Fin 99))
   \<and> constrain (Fin 5) (Fin (- 99)) (Fin 99) (Some ''target_offset'') = ([], Inr (Fin 5))
   \<and> py_gt (Fin 1) (Fin 0)
   \<and> constrain (Fin 150) (Fin 1) (Fin 0) (Some ''target_offset'') =
       ([], Inl (ValueError ''min must be smaller than max''))"
proof -
  have le: "py_le (Fin (- 99)) (Fin 99)"
    by (simp add: py_le_def)
  have gt: "py_gt (Fin 150) (Fin 99)" "py_gt (Fin 1) (Fin 0)"
    by (simp_all add: py_gt_def)
  have inside: "py_le (Fin (- 99)) (Fin 5) \<and> py_le (Fin 5) (Fin 99)"
    by (simp add: py_le_def)
  from constrain_clamps [of "Fin (- 99)" "Fin 99" "Fin 150" "Some ''target_offset''"] le gt(1)
  obtain result where
    r: "constrain (Fin 150) (Fin (- 99)) (Fin 99) (Some ''target_offset'') =
          (if py_ne result (Fin 150)
           then (case Some ''target_offset'' of
                   None \<Rightarrow> []
                 | Some n \<Rightarrow>
                     [(WARNING, ''Constraining {} to range of [{}, {}]: {} -> {}'',
                       [AStr n, ANum (Fin (- 99)), ANum (Fin 99), ANum (Fin 150),
                        ANum result])])
           else [],
           Inr result)"
      and v: "result = Fin 99"
    by blast
  from constrain_clamps [of "Fin (- 99)" "Fin 99" "Fin 5" "Some ''target_offset''"] le inside
  obtain result' where
    r': "constrain (Fin 5) (Fin (- 99)) (Fin 99) (Some ''target_offset'') =
          (if py_ne result' (Fin 5)
           then (case Some ''target_offset'' of
                   None \<Rightarrow> []
                 | Some n \<Rightarrow>
                     [(WARNING, ''Constraining {} to range of [{}, {}]: {} -> {}'',
                       [AStr n, ANum (Fin (- 99)), ANum (Fin 99), ANum (Fin 5),
                        ANum result'])])
           else [],
           Inr result')"
      and v': "result' = Fin 5"
    by blast
  from constrain_clamps [of "Fin 1" "Fin 0" "Fin 150" "Some ''target_offset''"] gt(2)
  have e: "constrain (Fin 150) (Fin 1) (Fin 0) (Some ''target_offset'') =
             ([], Inl (ValueError ''min must be smaller than max''))"
    by blast
  from r v r' v' le gt(2) e show ?thesis
    by (simp add: py_ne_def py_eq_def)
qed

section \<open>The EBU planner\<close>

text \<open>
  Claim C8. When the statistic \<^verbatim>\<open>"ebu"\<close> of the stream is still \<^verbatim>\<open>None\<close> (no measurement
  pass has stored a report), \<^verbatim>\<open>get_second_pass_opts_ebu\<close> raises \<^verbatim>\<open>FFmpegNormalizeError\<close>
  with the text "First pass not run, \<dots>" (the error the specification calls
  PlannerError) and returns no filter string; the state is left as it was.
\<close>

theorem ebu_planner_requires_first_pass:
  "ebu (loudness_statistics (self s)) = None \<Longrightarrow>
     get_second_pass_opts_ebu sf dict_to_filter_opts s =
       (s, Inl (FFmpegNormalizeError first_pass_message))"
  by (simp add: get_second_pass_opts_ebu_def second_pass_opts_ebu_def decide_dynamic_mode_def
      bind_def get_def raise_def)

theorem ebu_planner_requires_first_pass_witness:
  "get_second_pass_opts_ebu (\<lambda>_. Inl (ValueError [])) (\<lambda>_. [])
     (example_state example_settings \<lparr> ebu = None, mean = None, max' = None \<rparr>) =
       (example_state example_settings \<lparr> ebu = None, mean = None, max' = None \<rparr>,
        Inl (FFmpegNormalizeError first_pass_message))"
  by (rule ebu_planner_requires_first_pass) (simp add: example_state_def)

section \<open>Validation of a decoded report\<close>


lemma convert_field_ok:
  "map_of d k = Some v \<Longrightarrow> py_float sf v = Inr x \<Longrightarrow>
     convert_field sf d k = Inr (AList.update k (sentinel x) d)"
  by (cases x) (simp_all add: convert_field_def bind_e_def getitem_def sentinel_def py_eq_def)

lemma convert_field_missing:
  "map_of d k = None \<Longrightarrow> convert_field sf d k = Inl (KeyError k)"
  by (simp add: convert_field_def bind_e_def getitem_def)

lemma convert_field_bad:
  "map_of d k = Some v \<Longrightarrow> py_float sf v = Inl e \<Longrightarrow> convert_field sf d k = Inl e"
  by (simp add: convert_field_def bind_e_def getitem_def)

lemma convert_fields_ok:
  "distinct ks \<Longrightarrow>
   \<forall>k\<in>set ks. \<exists>v x. map_of d k = Some v \<and> py_float sf v = Inr x \<Longrightarrow>
   \<exists>d'. convert_fields sf ks d = Inr d'
        \<and> (\<forall>k\<in>set ks. \<forall>v x. map_of d k = Some v \<longrightarrow> py_float sf v = Inr x \<longrightarrow>
               map_of d' k = Some (sentinel x))
        \<and> (\<forall>k. k \<notin> set ks \<longrightarrow> map_of d' k = map_of d k)
        \<and> map fst d' = map fst d"
proof (induction ks arbitrary: d)
  case Nil
  then show ?case by simp
next
  case (Cons k ks)
  from Cons.prems obtain v x where kv: "map_of d k = Some v" "py_float sf v = Inr x"
    by auto
  let ?d1 = "AList.update k (sentinel x) d"
  have step: "convert_field sf d k = Inr ?d1"
    using kv by (rule convert_field_ok)
  have other: "\<And>k'. k' \<noteq> k \<Longrightarrow> map_of ?d1 k' = map_of d k'"
    by (simp add: update_conv')
  have "\<forall>k'\<in>set ks. \<exists>v x. map_of ?d1 k' = Some v \<and> py_float sf v = Inr x"
  proof
    fix k' assume k': "k' \<in> set ks"
    then have "k' \<noteq> k" using Cons.prems(1) by auto
    then have "map_of ?d1 k' = map_of d k'" by (rule other)
    then show "\<exists>v x. map_of ?d1 k' = Some v \<and> py_float sf v = Inr x"
      using Cons.prems(2) k' by simp
  qed
  with Cons.IH [of ?d1] Cons.prems(1)
  obtain d' where d': "convert_fields sf ks ?d1 = Inr d'"
    "\<forall>k'\<in>set ks. \<forall>v x. map_of ?d1 k' = Some v \<longrightarrow> py_float sf v = Inr x \<longrightarrow>
        map_of d' k' = Some (sentinel x)"
    "\<forall>k'. k' \<notin> set ks \<longrightarrow> map_of d' k' = map_of ?d1 k'"
    "map fst d' = map fst ?d1"
    by auto
  have keys: "map fst ?d1 = map fst d"
    using kv(1) by (simp add: update_keys map_of_eq_None_iff [symmetric] del: map_of_eq_None_iff)
  have "convert_fields sf (k # ks) d = Inr d'"
    using step d'(1) by (simp add: bind_e_def)
  moreover have "map_of d' k = Some (sentinel x)"
    using d'(3) Cons.prems(1) by (simp add: update_conv')
  moreover have "\<forall>k'\<in>set ks. \<forall>v x. map_of d k' = Some v \<longrightarrow> py_float sf v = Inr x \<longrightarrow>
        map_of d' k' = Some (sentinel x)"
  proof (intro ballI allI impI)
    fix k' v' x'
    assume k': "k' \<in> set ks" and v': "map_of d k' = Some v'" "py_float sf v' = Inr x'"
    from k' have "k' \<noteq> k" using Cons.prems(1) by auto
    then have "map_of ?d1 k' = Some v'" using other v'(1) by simp
    with d'(2) k' v'(2) show "map_of d' k' = Some (sentinel x')" by blast
  qed
  moreover have "\<forall>k'. k' \<notin> set (k # ks) \<longrightarrow> map_of d' k' = map_of d k'"
    using d'(3) other by auto
  ultimately show ?case
    using kv d'(4) keys by auto
qed

lemma convert_fields_fails:
  "distinct ks \<Longrightarrow> k \<in> set ks \<Longrightarrow>
   map_of d k = None \<or> (\<exists>v e. map_of d k = Some v \<and> py_float sf v = Inl e) \<Longrightarrow>
   \<exists>e. convert_fields sf ks d = Inl e"
proof (induction ks arbitrary: d)
  case Nil
  then show ?case by simp
next
  case (Cons a ks)
  show ?case
  proof (cases "convert_field sf d a")
    case (Inl e)
    then show ?thesis by (simp add: bind_e_def)
  next
    case (Inr d1)
    then obtain v x where a: "map_of d a = Some v" "py_float sf v = Inr x"
      by (auto simp: convert_field_def bind_e_def getitem_def split: option.splits sum.splits)
    then have d1: "d1 = AList.update a (sentinel x) d"
      using Inr convert_field_ok [of d a v sf x] by simp
    have "k \<noteq> a"
      using Cons.prems(3) a by auto
    then have "k \<in> set ks" "map_of d1 k = map_of d k"
      using Cons.prems(2) d1 by (auto simp: update_conv')
    with Cons.IH [of d1] Cons.prems obtain e where "convert_fields sf ks d1 = Inl e"
      by auto
    then show ?thesis using Inr by (simp add: bind_e_def)
  qed
qed

lemma convert_fields_first_missing:
  "distinct (pre @ k # post) \<Longrightarrow>
   \<forall>k'\<in>set pre. \<exists>v x. map_of d k' = Some v \<and> py_float sf v = Inr x \<Longrightarrow>
   map_of d k = None \<Longrightarrow>
   convert_fields sf (pre @ k # post) d = Inl (KeyError k)"
proof (induction pre arbitrary: d)
  case Nil
  then show ?case by (simp add: bind_e_def convert_field_missing)
next
  case (Cons a pre)
  from Cons.prems obtain v x where a: "map_of d a = Some v" "py_float sf v = Inr x"
    by auto
  let ?d1 = "AList.update a (sentinel x) d"
  have other: "\<And>k'. k' \<noteq> a \<Longrightarrow> map_of ?d1 k' = map_of d k'"
    by (simp add: update_conv')
  have "\<forall>k'\<in>set pre. \<exists>v x. map_of ?d1 k' = Some v \<and> py_float sf v = Inr x"
  proof
    fix k' assume k': "k' \<in> set pre"
    then have "k' \<noteq> a" using Cons.prems(1) by auto
    then have "map_of ?d1 k' = map_of d k'" by (rule other)
    then show "\<exists>v x. map_of ?d1 k' = Some v \<and> py_float sf v = Inr x"
      using Cons.prems(2) k' by simp
  qed
  moreover have "map_of ?d1 k = None"
    using Cons.prems(1,3) by (auto simp: update_conv')
  moreover have "distinct (pre @ k # post)"
    using Cons.prems(1) by simp
  ultimately have "convert_fields sf (pre @ k # post) ?d1 = Inl (KeyError k)"
    by (intro Cons.IH)
  then show ?case
    using convert_field_ok [OF a] by (simp add: bind_e_def)
qed


lemma distinct_required_keys: "distinct required_keys"
  by (simp add: required_keys_def)

text \<open>What validation returns is a validated report.\<close>

lemma sentinel_number: "is_number (sentinel x)"
  by (simp add: sentinel_def)

lemma validate_validated:
  assumes "validate sf (JObj d) = Inr d'"
  shows "validated d'"
proof -
  from assms have run: "convert_fields sf required_keys d = Inr d'"
    by (simp add: validate_def)
  have ok: "\<forall>k\<in>set required_keys. \<exists>v x. map_of d k = Some v \<and> py_float sf v = Inr x"
  proof
    fix k assume k: "k \<in> set required_keys"
    show "\<exists>v x. map_of d k = Some v \<and> py_float sf v = Inr x"
    proof (rule ccontr)
      assume n: "\<not> (\<exists>v x. map_of d k = Some v \<and> py_float sf v = Inr x)"
      have "map_of d k = None \<or> (\<exists>v e. map_of d k = Some v \<and> py_float sf v = Inl e)"
      proof (cases "map_of d k")
        case None
        then show ?thesis by simp
      next
        case (Some v)
        with n show ?thesis by (cases "py_float sf v") auto
      qed
      from convert_fields_fails [OF distinct_required_keys k this] run
      show False by simp
    qed
  qed
  from convert_fields_ok [OF distinct_required_keys ok] run
  have r: "\<forall>k\<in>set required_keys. \<forall>v x. map_of d k = Some v \<longrightarrow> py_float sf v = Inr x \<longrightarrow>
               map_of d' k = Some (sentinel x)"
    by auto
  have "\<forall>k\<in>set required_keys. case map_of d' k of None \<Rightarrow> False | Some v \<Rightarrow> is_number v"
  proof
    fix k assume k: "k \<in> set required_keys"
    with ok obtain v x where "map_of d k = Some v" "py_float sf v = Inr x" by blast
    with r k have "map_of d' k = Some (sentinel x)" by blast
    then show "case map_of d' k of None \<Rightarrow> False | Some v \<Rightarrow> is_number v"
      by (simp add: sentinel_number)
  qed
  then show ?thesis
    by (simp add: validated_def list_all_iff)
qed

text \<open>
  Claim C3. Validation of a decoded field map applies one rule to each of the nine
  required fields. When every one of them can be converted by \<^verbatim>\<open>float\<close> (given as a
  number or as a string), validation succeeds and each field holds -99 if its float is
  negative infinity, 0 if it is positive infinity, and the float itself otherwise; the
  other entries and the order of the keys are unchanged. When a required field is
  present and \<^verbatim>\<open>float\<close> raises on it (a string that is no float, an int beyond the range
  of floats, a value of another type), the result is an \<^verbatim>\<open>FFmpegNormalizeError\<close> (the
  error the specification calls MeasurementParseError).
\<close>

theorem validation_rule:
  "((\<forall>k\<in>set required_keys. \<exists>v x. map_of d k = Some v \<and> py_float sf v = Inr x) \<longrightarrow>
      (\<exists>d'. except_clause (validate sf (JObj d)) = Inr d'
         \<and> (\<forall>k\<in>set required_keys. \<forall>v x.
               map_of d k = Some v \<longrightarrow> py_float sf v = Inr x \<longrightarrow>
               map_of d' k =
                 Some (if x = NegInf then JInt (- 99)
                       else if x = PosInf then JInt 0
                       else JFloat x))
         \<and> (\<forall>k. k \<notin> set required_keys \<longrightarrow> map_of d' k = map_of d k)
         \<and> map fst d' = map fst d))
   \<and> (k \<in> set required_keys \<and> map_of d k = Some v \<and> py_float sf v = Inl e \<longrightarrow>
        (\<exists>m. except_clause (validate sf (JObj d)) =
               Inl (FFmpegNormalizeError (wrong_json_message @ m))))"
proof (intro conjI impI)
  assume "\<forall>k\<in>set required_keys. \<exists>v x. map_of d k = Some v \<and> py_float sf v = Inr x"
  from convert_fields_ok [OF distinct_required_keys this]
  obtain d' where run: "convert_fields sf required_keys d = Inr d'"
    and rule: "\<forall>k\<in>set required_keys. \<forall>v x.
               map_of d k = Some v \<longrightarrow> py_float sf v = Inr x \<longrightarrow>
               map_of d' k = Some (sentinel x)"
    and rest: "\<forall>k. k \<notin> set required_keys \<longrightarrow> map_of d' k = map_of d k"
    and keys: "map fst d' = map fst d"
    by blast
  have "except_clause (validate sf (JObj d)) = Inr d'"
    using run by (simp add: validate_def except_clause_def)
  with rule [unfolded sentinel_def] rest keys
  show "\<exists>d'. except_clause (validate sf (JObj d)) = Inr d'
         \<and> (\<forall>k\<in>set required_keys. \<forall>v x.
               map_of d k = Some v \<longrightarrow> py_float sf v = Inr x \<longrightarrow>
               map_of d' k =
                 Some (if x = NegInf then JInt (- 99)
                       else if x = PosInf then JInt 0
                       else JFloat x))
         \<and> (\<forall>k. k \<notin> set required_keys \<longrightarrow> map_of d' k = map_of d k)
         \<and> map fst d' = map fst d"
    by blast
next
  assume "k \<in> set required_keys \<and> map_of d k = Some v \<and> py_float sf v = Inl e"
  then obtain e' where "convert_fields sf required_keys d = Inl e'"
    using convert_fields_fails [OF distinct_required_keys, of k d sf] by blast
  then show "\<exists>m. except_clause (validate sf (JObj d)) =
               Inl (FFmpegNormalizeError (wrong_json_message @ m))"
    by (simp add: validate_def except_clause_def)
qed

lemma example_report_parses:
  "\<forall>k\<in>set required_keys. \<exists>v x. map_of example_report k = Some v \<and> py_float example_float v = Inr x"
  by (simp add: required_keys_def example_report_def example_float_def)

theorem validation_rule_witness:
  "\<exists>d'. except_clause (validate example_float (JObj example_report)) = Inr d'
      \<and> map_of d' ''input_i'' = Some (JInt (- 99))
      \<and> map_of d' ''input_tp'' = Some (JInt 0)
      \<and> map_of d' ''input_lra'' = Some (JFloat (Fin 9.5))
      \<and> map_of d' ''input_thresh'' = Some (JFloat (Fin (- 33)))
      \<and> map_of d' ''target_offset'' = Some (JFloat (Fin 1))
      \<and> map_of d' ''normalization_type'' = Some (JStr ''dynamic'')
      \<and> (\<exists>m. except_clause (validate example_float
                  (JObj (AList.update ''input_tp'' (JStr ''abc'') example_report))) =
                Inl (FFmpegNormalizeError (wrong_json_message @ m)))
      \<and> (\<exists>m. except_clause (validate example_float
                  (JObj (AList.update ''input_tp'' (JInt (2 ^ 1024)) example_report))) =
                Inl (FFmpegNormalizeError (wrong_json_message @ m)))"
proof -
  from validation_rule [of example_report example_float] example_report_parses
  obtain d' where ok: "except_clause (validate example_float (JObj example_report)) = Inr d'"
    and rule: "\<forall>k\<in>set required_keys. \<forall>v x.
               map_of example_report k = Some v \<longrightarrow> py_float example_float v = Inr x \<longrightarrow>
               map_of d' k =
                 Some (if x = NegInf then JInt (- 99)
                       else if x = PosInf then JInt 0
                       else JFloat x)"
    and rest: "\<forall>k. k \<notin> set required_keys \<longrightarrow> map_of d' k = map_of example_report k"
    by blast
  have a: "map_of d' ''input_i'' = Some (JInt (- 99))"
    using rule [rule_format, of "''input_i''" "JStr ''-inf''" NegInf]
    by (simp add: required_keys_def example_report_def example_float_def)
  have b: "map_of d' ''input_tp'' = Some (JInt 0)"
    using rule [rule_format, of "''input_tp''" "JFloat PosInf" PosInf]
    by (simp add: required_keys_def example_report_def)
  have c: "map_of d' ''input_lra'' = Some (JFloat (Fin 9.5))"
    using rule [rule_format, of "''input_lra''" "JStr ''9.50''" "Fin 9.5"]
    by (simp add: required_keys_def example_report_def example_float_def)
  have d: "map_of d' ''input_thresh'' = Some (JFloat (Fin (- 33)))"
    using rule [rule_format, of "''input_thresh''" "JFloat (Fin (- 33))" "Fin (- 33)"]
    by (simp add: required_keys_def example_report_def)
  have e: "map_of d' ''normalization_type'' = Some (JStr ''dynamic'')"
    using rest [rule_format, of "''normalization_type''"]
    by (simp add: required_keys_def example_report_def)
  have f: "map_of d' ''target_offset'' = Some (JFloat (Fin 1))"
    using rule [rule_format, of "''target_offset''" "JInt 1" "Fin 1"]
    by (simp add: required_keys_def example_report_def)
  have g: "\<exists>m. except_clause (validate example_float
                  (JObj (AList.update ''input_tp'' (JStr ''abc'') example_report))) =
               Inl (FFmpegNormalizeError (wrong_json_message @ m))"
    using validation_rule [of "AList.update ''input_tp'' (JStr ''abc'') example_report"
        example_float "''input_tp''" "JStr ''abc''"
        "ValueError (''could not convert string to float: '' @ py_repr ''abc'')"]
    by (simp add: required_keys_def example_report_def example_float_def)
  have h: "\<exists>m. except_clause (validate example_float
                  (JObj (AList.update ''input_tp'' (JInt (2 ^ 1024)) example_report))) =
               Inl (FFmpegNormalizeError (wrong_json_message @ m))"
    using validation_rule [of "AList.update ''input_tp'' (JInt (2 ^ 1024)) example_report"
        example_float "''input_tp''" "JInt (2 ^ 1024)"
        "OverflowError ''int too large to convert to float''"]
    by (simp add: required_keys_def example_report_def example_float_def)
  from ok a b c d e f g h show ?thesis by blast
qed



lemma required_keys_split:
  "k \<in> set required_keys \<Longrightarrow>
     required_keys = takeWhile (\<lambda>k'. k' \<noteq> k) required_keys @ k # tl (dropWhile (\<lambda>k'. k' \<noteq> k) required_keys)"
proof -
  assume "k \<in> set required_keys"
  then have "dropWhile (\<lambda>k'. k' \<noteq> k) required_keys \<noteq> []"
    by (auto simp: dropWhile_eq_Nil_conv)
  then have "dropWhile (\<lambda>k'. k' \<noteq> k) required_keys
               = k # tl (dropWhile (\<lambda>k'. k' \<noteq> k) required_keys)"
    using hd_dropWhile [of "\<lambda>k'. k' \<noteq> k" required_keys]
    by (cases "dropWhile (\<lambda>k'. k' \<noteq> k) required_keys") auto
  then show ?thesis
    using takeWhile_dropWhile_id [of "\<lambda>k'. k' \<noteq> k" required_keys] by simp
qed

text \<open>
  Claim C9. When the decoded object lacks one of the nine required fields, validation
  raises: the loop stops with an exception \<open>e\<close>, the \<^verbatim>\<open>except\<close> clause turns it into an
  \<^verbatim>\<open>FFmpegNormalizeError\<close> whose text ends with the text of \<open>e\<close>, and that is what
  \<^verbatim>\<open>_parse_loudnorm_output\<close> raises when the decoder returned this object; no dict is
  returned, so the field is not defaulted. When the fields before the missing one are
  present and convert, \<open>e\<close> is the \<^verbatim>\<open>KeyError\<close> of the missing key and its text is the key
  in quotes.
\<close>

theorem missing_field_raises:
  "k \<in> set required_keys \<Longrightarrow> map_of d k = None \<Longrightarrow>
     (\<exists>e. validate sf (JObj d) = Inl e
         \<and> except_clause (validate sf (JObj d)) =
             Inl (FFmpegNormalizeError (wrong_json_message @ str_error e))
         \<and> (found_bounds output_lines = Some (a, b)
              \<and> json_loads (join [CHR 0x0A] (slice output_lines a b)) = Inr (JObj d) \<longrightarrow>
            snd (parse_loudnorm_output json_loads sf output_lines) =
              Inl (FFmpegNormalizeError (wrong_json_message @ str_error e)))
         \<and> ((\<forall>k'\<in>set (takeWhile (\<lambda>k'. k' \<noteq> k) required_keys).
                \<exists>v x. map_of d k' = Some v \<and> py_float sf v = Inr x) \<longrightarrow>
            e = KeyError k \<and> str_error e = [CHR 0x27] @ k @ [CHR 0x27]))"
proof -
  assume k: "k \<in> set required_keys" and missing: "map_of d k = None"
  let ?pre = "takeWhile (\<lambda>k'. k' \<noteq> k) required_keys"
  let ?post = "tl (dropWhile (\<lambda>k'. k' \<noteq> k) required_keys)"
  from convert_fields_fails [OF distinct_required_keys k, of d sf] missing
  obtain e where e: "convert_fields sf required_keys d = Inl e"
    by blast
  then have v: "validate sf (JObj d) = Inl e"
    by (simp add: validate_def)
  then have x: "except_clause (validate sf (JObj d)) =
             Inl (FFmpegNormalizeError (wrong_json_message @ str_error e))"
    by (simp add: except_clause_def)
  have p: "found_bounds output_lines = Some (a, b)
             \<and> json_loads (join [CHR 0x0A] (slice output_lines a b)) = Inr (JObj d) \<longrightarrow>
           snd (parse_loudnorm_output json_loads sf output_lines) =
             Inl (FFmpegNormalizeError (wrong_json_message @ str_error e))"
    using x by (auto simp: parse_loudnorm_output_def found_bounds_def
        split: prod.splits option.splits)
  have f: "(\<forall>k'\<in>set ?pre. \<exists>v x. map_of d k' = Some v \<and> py_float sf v = Inr x) \<longrightarrow>
            e = KeyError k \<and> str_error e = [CHR 0x27] @ k @ [CHR 0x27]"
  proof
    assume pre: "\<forall>k'\<in>set ?pre. \<exists>v x. map_of d k' = Some v \<and> py_float sf v = Inr x"
    have split: "required_keys = ?pre @ k # ?post"
      using k by (rule required_keys_split)
    then have "distinct (?pre @ k # ?post)"
      using distinct_required_keys by simp
    from convert_fields_first_missing [OF this pre missing]
    have "convert_fields sf required_keys d = Inl (KeyError k)"
      using split by simp
    with e show "e = KeyError k \<and> str_error e = [CHR 0x27] @ k @ [CHR 0x27]"
      by (auto simp: py_repr_def)
  qed
  from v x p f show ?thesis by blast
qed

theorem missing_field_raises_witness:
  "parse_loudnorm_output (\<lambda>_. Inr (JObj (AList.delete ''input_lra'' example_report)))
       example_float [''[Parsed_loudnorm_0 @ 0x1]'', ''{'', ''}''] =
     ([(DEBUG, ''Loudnorm stats parsed: {}'',
        [AJson (JObj (AList.delete ''input_lra'' example_report))])],
      Inl (FFmpegNormalizeError
             (wrong_json_message @ [CHR 0x27] @ ''input_lra'' @ [CHR 0x27])))"
proof -
  let ?d = "AList.delete ''input_lra'' example_report"
  let ?lines = "[''[Parsed_loudnorm_0 @ 0x1]'', ''{'', ''}'']"
  have k: "''input_lra'' \<in> set required_keys"
    by (simp add: required_keys_def)
  have m: "map_of ?d ''input_lra'' = None"
    by (simp add: example_report_def)
  have b: "found_bounds ?lines = Some (1, 3)"
    by (simp add: found_bounds_def)
  have pre: "\<forall>k'\<in>set (takeWhile (\<lambda>k'. k' \<noteq> ''input_lra'') required_keys).
                \<exists>v x. map_of ?d k' = Some v \<and> py_float example_float v = Inr x"
    by (simp add: required_keys_def example_report_def example_float_def)
  from missing_field_raises [OF k m, of example_float ?lines 1 3 "\<lambda>_. Inr (JObj ?d)"] b pre
  have "snd (parse_loudnorm_output (\<lambda>_. Inr (JObj ?d)) example_float ?lines) =
          Inl (FFmpegNormalizeError (wrong_json_message @ [CHR 0x27] @ ''input_lra'' @ [CHR 0x27]))"
    by auto
  moreover have "fst (parse_loudnorm_output (\<lambda>_. Inr (JObj ?d)) example_float ?lines) =
          [(DEBUG, ''Loudnorm stats parsed: {}'', [AJson (JObj ?d)])]"
    using b by (simp add: parse_loudnorm_output_def found_bounds_def split: prod.splits option.splits)
  ultimately show ?thesis
    by (simp add: prod_eq_iff)
qed

section \<open>The bounds of the JSON body\<close>


lemma closing_not_header: "prefix ''}'' l \<Longrightarrow> \<not> prefix ''[Parsed_loudnorm'' l"
  by (cases l) auto

lemma scan_body:
  "\<forall>l\<in>set body. \<not> prefix ''[Parsed_loudnorm'' l \<and> \<not> prefix ''}'' l \<Longrightarrow>
   prefix ''}'' c \<Longrightarrow>
   scan_lines i (Some s) (body @ c # rest) = (Some s, Some (i + length body + 1))"
proof (induction body arbitrary: i)
  case Nil
  then show ?case using closing_not_header [of c] by simp
next
  case (Cons l body)
  then show ?case by simp
qed

lemma scan_pre:
  "\<forall>j<length pre. prefix ''}'' (pre ! j) \<longrightarrow>
      st = None \<and> (\<forall>i<j. \<not> prefix ''[Parsed_loudnorm'' (pre ! i)) \<Longrightarrow>
   prefix ''[Parsed_loudnorm'' h \<Longrightarrow>
   scan_lines i st (pre @ h # xs) =
     scan_lines (i + length pre + 1) (Some (i + length pre + 1)) xs"
proof (induction pre arbitrary: i st)
  case Nil
  then show ?case by simp
next
  case (Cons p ps)
  show ?case
  proof (cases "prefix ''[Parsed_loudnorm'' p")
    case True
    have "\<forall>j<length ps. prefix ''}'' (ps ! j) \<longrightarrow>
            Some (i + 1) = None \<and> (\<forall>i<j. \<not> prefix ''[Parsed_loudnorm'' (ps ! i))"
    proof (intro allI impI)
      fix j assume j: "j < length ps" and c: "prefix ''}'' (ps ! j)"
      from Cons.prems(1) [rule_format, of "Suc j"] j c
      have "\<forall>i<Suc j. \<not> prefix ''[Parsed_loudnorm'' ((p # ps) ! i)" by simp
      then have "\<not> prefix ''[Parsed_loudnorm'' ((p # ps) ! 0)" by blast
      with True show "Some (i + 1) = None \<and> (\<forall>i<j. \<not> prefix ''[Parsed_loudnorm'' (ps ! i))"
        by simp
    qed
    from Cons.IH [OF this Cons.prems(2), of "i + 1"] True show ?thesis
      by simp
  next
    case False
    have st: "prefix ''}'' p \<Longrightarrow> st = None"
      using Cons.prems(1) [rule_format, of 0] by simp
    have "\<forall>j<length ps. prefix ''}'' (ps ! j) \<longrightarrow>
            st = None \<and> (\<forall>i<j. \<not> prefix ''[Parsed_loudnorm'' (ps ! i))"
    proof (intro allI impI)
      fix j assume j: "j < length ps" and c: "prefix ''}'' (ps ! j)"
      from Cons.prems(1) [rule_format, of "Suc j"] j c
      have a: "st = None" and b: "\<forall>i<Suc j. \<not> prefix ''[Parsed_loudnorm'' ((p # ps) ! i)"
        by simp_all
      have "\<forall>i<j. \<not> prefix ''[Parsed_loudnorm'' (ps ! i)"
      proof (intro allI impI)
        fix i assume "i < j"
        then have "Suc i < Suc j" by simp
        with b have "\<not> prefix ''[Parsed_loudnorm'' ((p # ps) ! Suc i)" by blast
        then show "\<not> prefix ''[Parsed_loudnorm'' (ps ! i)" by simp
      qed
      with a show "st = None \<and> (\<forall>i<j. \<not> prefix ''[Parsed_loudnorm'' (ps ! i))" by simp
    qed
    from Cons.IH [OF this Cons.prems(2), of "i + 1"] False st show ?thesis
      by auto
  qed
qed

lemma scan_no_header:
  "\<forall>l\<in>set ls. \<not> prefix ''[Parsed_loudnorm'' l \<Longrightarrow> scan_lines i None ls = (None, None)"
  by (induction ls arbitrary: i) simp_all

lemma scan_no_closing:
  "\<forall>l\<in>set ls. \<not> prefix ''}'' l \<Longrightarrow> snd (scan_lines i st ls) = None"
  by (induction ls arbitrary: i st) simp_all

lemma no_bounds_raises:
  "snd (scan_lines 0 None ls) = None \<Longrightarrow>
     parse_loudnorm_output json_loads sf ls = ([], Inl (FFmpegNormalizeError no_output_message))"
  by (cases "scan_lines 0 None ls") (simp add: parse_loudnorm_output_def split: option.splits)

text \<open>Every list of lines has one of three forms.\<close>

lemma lines_forms:
  "(\<forall>l\<in>set ls. \<not> prefix ''[Parsed_loudnorm'' l)
   \<or> (\<exists>before h after. ls = before @ h # after
         \<and> (\<forall>l\<in>set before. \<not> prefix ''[Parsed_loudnorm'' l)
         \<and> prefix ''[Parsed_loudnorm'' h
         \<and> (\<forall>l\<in>set after. \<not> prefix ''}'' l))
   \<or> (\<exists>pre h body c rest. ls = pre @ h # body @ c # rest
         \<and> prefix ''[Parsed_loudnorm'' h \<and> prefix ''}'' c
         \<and> (\<forall>l\<in>set body. \<not> prefix ''[Parsed_loudnorm'' l \<and> \<not> prefix ''}'' l)
         \<and> (\<forall>j<length pre. prefix ''}'' (pre ! j) \<longrightarrow>
               (\<forall>i<j. \<not> prefix ''[Parsed_loudnorm'' (pre ! i))))"
proof (cases "\<exists>l\<in>set ls. prefix ''[Parsed_loudnorm'' l")
  case False
  then show ?thesis by blast
next
  case True
  from split_list_first_prop [OF this]
  obtain before h after where
    ls: "ls = before @ h # after" and h: "prefix ''[Parsed_loudnorm'' h"
    and b: "\<forall>l\<in>set before. \<not> prefix ''[Parsed_loudnorm'' l"
    by blast
  show ?thesis
  proof (cases "\<exists>l\<in>set after. prefix ''}'' l")
    case False
    with ls h b show ?thesis by blast
  next
    case True
    from split_list_first_prop [OF this]
    obtain mid c rest where
      af: "after = mid @ c # rest" and c: "prefix ''}'' c"
      and m: "\<forall>l\<in>set mid. \<not> prefix ''}'' l"
      by blast
    have "\<exists>l\<in>set (h # mid). prefix ''[Parsed_loudnorm'' l"
      using h by simp
    from split_list_last_prop [OF this]
    obtain ys x zs where
      hm: "h # mid = ys @ x # zs" and x: "prefix ''[Parsed_loudnorm'' x"
      and z: "\<forall>l\<in>set zs. \<not> prefix ''[Parsed_loudnorm'' l"
      by blast
    have sub: "set zs \<subseteq> set mid" "\<forall>l\<in>set ys. \<not> prefix ''}'' l"
    proof -
      show "set zs \<subseteq> set mid"
      proof (cases ys)
        case Nil
        with hm show ?thesis by simp
      next
        case (Cons y ys')
        with hm have "mid = ys' @ x # zs" by simp
        then show ?thesis by auto
      qed
      show "\<forall>l\<in>set ys. \<not> prefix ''}'' l"
      proof (cases ys)
        case Nil
        then show ?thesis by simp
      next
        case (Cons y ys')
        with hm have "y = h" "mid = ys' @ x # zs" by simp_all
        with Cons m h closing_not_header [of h] show ?thesis by auto
      qed
    qed
    have body: "\<forall>l\<in>set zs. \<not> prefix ''[Parsed_loudnorm'' l \<and> \<not> prefix ''}'' l"
      using z sub(1) m by blast
    have pre: "\<forall>j<length (before @ ys). prefix ''}'' ((before @ ys) ! j) \<longrightarrow>
               (\<forall>i<j. \<not> prefix ''[Parsed_loudnorm'' ((before @ ys) ! i))"
    proof (intro allI impI)
      fix j i
      assume j: "j < length (before @ ys)" and cj: "prefix ''}'' ((before @ ys) ! j)"
        and i: "i < j"
      have "j < length before"
      proof (rule ccontr)
        assume "\<not> j < length before"
        then have "(before @ ys) ! j = ys ! (j - length before)" "j - length before < length ys"
          using j by (simp_all add: nth_append)
        then have "(before @ ys) ! j \<in> set ys" by simp
        with sub(2) cj show False by blast
      qed
      with i have "(before @ ys) ! i = before ! i" "i < length before"
        by (simp_all add: nth_append)
      then have "(before @ ys) ! i \<in> set before" by simp
      with b show "\<not> prefix ''[Parsed_loudnorm'' ((before @ ys) ! i)" by blast
    qed
    have "ls = (before @ ys) @ x # zs @ c # rest"
      using ls af hm by (metis append.assoc append_Cons)
    with x c body pre show ?thesis by blast
  qed
qed

text \<open>
  Claim C4, as the code has it. A closing line is a line that begins with a closing
  brace (it need not be exactly one), found after a header line, and every header line
  met before it restarts the body. So for lines \<open>pre @ h # body @ c # rest\<close>, where \<open>h\<close>
  begins with the header marker, \<open>c\<close> with a closing brace, \<open>body\<close> has neither kind of
  line, and a closing line of \<open>pre\<close> has no header line before it: the body starts at the
  line after \<open>h\<close>, the last header line before \<open>c\<close>, and ends with \<open>c\<close>, which is part of
  the text handed to the decoder. Without a header line, or with no closing line after
  the first header line, the method raises \<^verbatim>\<open>FFmpegNormalizeError\<close>. These three
  forms cover every list of lines.
\<close>

theorem loudnorm_bounds:
  "(prefix ''[Parsed_loudnorm'' h \<and> prefix ''}'' c
      \<and> (\<forall>l\<in>set body. \<not> prefix ''[Parsed_loudnorm'' l \<and> \<not> prefix ''}'' l)
      \<and> (\<forall>j<length pre. prefix ''}'' (pre ! j) \<longrightarrow>
            (\<forall>i<j. \<not> prefix ''[Parsed_loudnorm'' (pre ! i))) \<longrightarrow>
      found_bounds (pre @ h # body @ c # rest) =
        Some (length pre + 1, length pre + length body + 2)
      \<and> slice (pre @ h # body @ c # rest) (length pre + 1) (length pre + length body + 2) =
          body @ [c]
      \<and> parse_loudnorm_output json_loads sf (pre @ h # body @ c # rest) =
          (case json_loads (join [CHR 0x0A] (body @ [c])) of
             Inl e \<Rightarrow> ([], except_clause (Inl e))
           | Inr loudnorm_stats \<Rightarrow>
               ([(DEBUG, ''Loudnorm stats parsed: {}'', [AJson loudnorm_stats])],
                except_clause (validate sf loudnorm_stats))))
   \<and> ((\<forall>l\<in>set output_lines. \<not> prefix ''[Parsed_loudnorm'' l) \<longrightarrow>
        parse_loudnorm_output json_loads sf output_lines =
          ([], Inl (FFmpegNormalizeError no_output_message)))
   \<and> ((\<forall>l\<in>set before. \<not> prefix ''[Parsed_loudnorm'' l) \<and> prefix ''[Parsed_loudnorm'' h'
        \<and> (\<forall>l\<in>set after. \<not> prefix ''}'' l) \<longrightarrow>
        parse_loudnorm_output json_loads sf (before @ h' # after) =
          ([], Inl (FFmpegNormalizeError no_output_message)))"
proof (intro conjI impI)
  assume a: "prefix ''[Parsed_loudnorm'' h \<and> prefix ''}'' c
      \<and> (\<forall>l\<in>set body. \<not> prefix ''[Parsed_loudnorm'' l \<and> \<not> prefix ''}'' l)
      \<and> (\<forall>j<length pre. prefix ''}'' (pre ! j) \<longrightarrow>
            (\<forall>i<j. \<not> prefix ''[Parsed_loudnorm'' (pre ! i)))"
  then have "scan_lines 0 None (pre @ h # body @ c # rest) =
               scan_lines (length pre + 1) (Some (length pre + 1)) (body @ c # rest)"
    using scan_pre [of pre None h 0 "body @ c # rest"] by simp
  also have "\<dots> = (Some (length pre + 1), Some (length pre + 1 + length body + 1))"
    using a by (intro scan_body) simp_all
  finally have s: "scan_lines 0 None (pre @ h # body @ c # rest) =
                     (Some (length pre + 1), Some (length pre + length body + 2))"
    by simp
  then show b: "found_bounds (pre @ h # body @ c # rest) =
                  Some (length pre + 1, length pre + length body + 2)"
    by (simp add: found_bounds_def)
  show sl: "slice (pre @ h # body @ c # rest) (length pre + 1) (length pre + length body + 2) =
              body @ [c]"
    by (simp add: slice_def)
  show "parse_loudnorm_output json_loads sf (pre @ h # body @ c # rest) =
          (case json_loads (join [CHR 0x0A] (body @ [c])) of
             Inl e \<Rightarrow> ([], except_clause (Inl e))
           | Inr loudnorm_stats \<Rightarrow>
               ([(DEBUG, ''Loudnorm stats parsed: {}'', [AJson loudnorm_stats])],
                except_clause (validate sf loudnorm_stats)))"
    using s sl by (simp add: parse_loudnorm_output_def)
next
  assume "\<forall>l\<in>set output_lines. \<not> prefix ''[Parsed_loudnorm'' l"
  then have "scan_lines 0 None output_lines = (None, None)"
    by (rule scan_no_header)
  then show "parse_loudnorm_output json_loads sf output_lines =
          ([], Inl (FFmpegNormalizeError no_output_message))"
    by (simp add: no_bounds_raises)
next
  assume a: "(\<forall>l\<in>set before. \<not> prefix ''[Parsed_loudnorm'' l) \<and> prefix ''[Parsed_loudnorm'' h'
        \<and> (\<forall>l\<in>set after. \<not> prefix ''}'' l)"
  then have "\<forall>j<length before. prefix ''}'' (before ! j) \<longrightarrow>
      (None :: nat option) = None \<and> (\<forall>i<j. \<not> prefix ''[Parsed_loudnorm'' (before ! i))"
    by simp
  from scan_pre [OF this, of h' 0 after] a
  have "scan_lines 0 None (before @ h' # after) =
          scan_lines (length before + 1) (Some (length before + 1)) after"
    by simp
  then have "snd (scan_lines 0 None (before @ h' # after)) = None"
    using a by (simp add: scan_no_closing)
  then show "parse_loudnorm_output json_loads sf (before @ h' # after) =
          ([], Inl (FFmpegNormalizeError no_output_message))"
    by (rule no_bounds_raises)
qed

text \<open>
  Claim C4 as stated fails: with two header lines the body starts after the second one,
  not after the first; and a line that only begins with a closing brace ends the body.
\<close>

theorem loudnorm_bounds_counterexample:
  "found_bounds [''[Parsed_loudnorm_0 @ 0x1]'', ''[Parsed_loudnorm_1 @ 0x2]'', ''{'', ''}''] = Some (2, 4)
   \<and> claimed_bounds [''[Parsed_loudnorm_0 @ 0x1]'', ''[Parsed_loudnorm_1 @ 0x2]'', ''{'', ''}''] = Some (1, 4)
   \<and> found_bounds [''[Parsed_loudnorm_0 @ 0x1]'', ''{'', ''},'', ''}''] = Some (1, 3)
   \<and> claimed_bounds [''[Parsed_loudnorm_0 @ 0x1]'', ''{'', ''},'', ''}''] = Some (1, 4)"
  by (simp add: found_bounds_def claimed_bounds_def)


theorem loudnorm_bounds_witness:
  "found_bounds [''ffmpeg'', ''[Parsed_loudnorm_0 @ 0x1]'', ''[Parsed_loudnorm_1 @ 0x2]'',
                 ''{'', ''}, '', ''}''] = Some (3, 5)
   \<and> slice [''ffmpeg'', ''[Parsed_loudnorm_0 @ 0x1]'', ''[Parsed_loudnorm_1 @ 0x2]'',
             ''{'', ''}, '', ''}''] 3 5 = [''{'', ''}, '']
   \<and> parse_loudnorm_output (\<lambda>_. Inl (JSONDecodeError [])) (\<lambda>_. Inl (ValueError [])) [''ffmpeg'', ''}''] =
       ([], Inl (FFmpegNormalizeError no_output_message))
   \<and> parse_loudnorm_output (\<lambda>_. Inl (JSONDecodeError [])) (\<lambda>_. Inl (ValueError []))
         [''}'', ''[Parsed_loudnorm_0 @ 0x1]'', ''{''] =
       ([], Inl (FFmpegNormalizeError no_output_message))"
proof -
  note t = loudnorm_bounds [of "''[Parsed_loudnorm_1 @ 0x2]''" "''}, ''" "[''{'']"
      "[''ffmpeg'', ''[Parsed_loudnorm_0 @ 0x1]'']" "[''}'']"
      "\<lambda>_. Inl (JSONDecodeError [])" "\<lambda>_. Inl (ValueError [])"
      "[''ffmpeg'', ''}'']" "[''}'']" "''[Parsed_loudnorm_0 @ 0x1]''" "[''{'']"]
  have "found_bounds ([''ffmpeg'', ''[Parsed_loudnorm_0 @ 0x1]''] @ ''[Parsed_loudnorm_1 @ 0x2]''
            # [''{''] @ ''}, '' # [''}'']) =
          Some (length [''ffmpeg'', ''[Parsed_loudnorm_0 @ 0x1]''] + 1,
                length [''ffmpeg'', ''[Parsed_loudnorm_0 @ 0x1]''] + length [''{''] + 2)
        \<and> slice ([''ffmpeg'', ''[Parsed_loudnorm_0 @ 0x1]''] @ ''[Parsed_loudnorm_1 @ 0x2]''
            # [''{''] @ ''}, '' # [''}''])
            (length [''ffmpeg'', ''[Parsed_loudnorm_0 @ 0x1]''] + 1)
            (length [''ffmpeg'', ''[Parsed_loudnorm_0 @ 0x1]''] + length [''{''] + 2) =
          [''{''] @ [''}, '']"
    using t [THEN conjunct1] by (simp add: nth_Cons' less_Suc_eq)
  then have a: "found_bounds [''ffmpeg'', ''[Parsed_loudnorm_0 @ 0x1]'',
                   ''[Parsed_loudnorm_1 @ 0x2]'', ''{'', ''}, '', ''}''] = Some (3, 5)
        \<and> slice [''ffmpeg'', ''[Parsed_loudnorm_0 @ 0x1]'', ''[Parsed_loudnorm_1 @ 0x2]'',
             ''{'', ''}, '', ''}''] 3 5 = [''{'', ''}, '']"
    by (simp add: numeral_3_eq_3 eval_nat_numeral)
  have b: "parse_loudnorm_output (\<lambda>_. Inl (JSONDecodeError [])) (\<lambda>_. Inl (ValueError [])) [''ffmpeg'', ''}''] =
       ([], Inl (FFmpegNormalizeError no_output_message))"
    using t [THEN conjunct2, THEN conjunct1] by simp
  have c: "parse_loudnorm_output (\<lambda>_. Inl (JSONDecodeError [])) (\<lambda>_. Inl (ValueError []))
         [''}'', ''[Parsed_loudnorm_0 @ 0x1]'', ''{''] =
       ([], Inl (FFmpegNormalizeError no_output_message))"
    using t [THEN conjunct2, THEN conjunct2] by simp
  from a b c show ?thesis by blast
qed

section \<open>Peak and RMS levels\<close>













section \<open>The gain of the peak/RMS path\<close>

text \<open>
  Claim C6. With the mean and max statistics populated: in peak mode the gain is the
  target level minus the max level (the code writes \<^verbatim>\<open>0 + target_level\<close>, here \<open>target\<close>,
  and adding the int 0 changes no number), in RMS mode the target level minus the mean
  level, each as Python's operators compute it; the method logs the adjustment, logs a
  clipping warning exactly when the max level plus the gain is greater than 0, and in
  both cases returns \<^verbatim>\<open>volume=<adjustment>dB\<close>. Any other normalization type raises
  \<^verbatim>\<open>FFmpegNormalizeError\<close> (the specification's PlannerError) and logs nothing.
\<close>

theorem peakrms_adjustment:
  "mean (loudness_statistics (self s)) = Some mean_db \<Longrightarrow>
   max' (loudness_statistics (self s)) = Some max_db \<Longrightarrow>
     (normalization_type (settings s) = ''peak''
        \<and> add (Fin 0) (target_level (settings s)) = Inr target
        \<and> sub target max_db = Inr adjustment
        \<and> add max_db adjustment = Inr clipping \<longrightarrow>
        get_second_pass_opts_peakrms add sub fmt s =
          (s\<lparr> logger := logger s
                @ [(INFO, ''Adjusting stream {} by {} dB to reach {}'',
                    [AInt (stream_id (self s)), ANum adjustment,
                     ANum (target_level (settings s))])]
                @ (if py_gt clipping (Fin 0)
                   then [(WARNING, ''Adjusting will lead to clipping of {} dB'',
                          [ANum clipping])]
                   else []) \<rparr>,
           Inr (''volume='' @ fmt adjustment @ ''dB'')))
   \<and> (normalization_type (settings s) = ''rms''
        \<and> sub (target_level (settings s)) mean_db = Inr adjustment
        \<and> add max_db adjustment = Inr clipping \<longrightarrow>
        get_second_pass_opts_peakrms add sub fmt s =
          (s\<lparr> logger := logger s
                @ [(INFO, ''Adjusting stream {} by {} dB to reach {}'',
                    [AInt (stream_id (self s)), ANum adjustment,
                     ANum (target_level (settings s))])]
                @ (if py_gt clipping (Fin 0)
                   then [(WARNING, ''Adjusting will lead to clipping of {} dB'',
                          [ANum clipping])]
                   else []) \<rparr>,
           Inr (''volume='' @ fmt adjustment @ ''dB'')))
   \<and> (normalization_type (settings s) \<noteq> ''peak'' \<and> normalization_type (settings s) \<noteq> ''rms'' \<longrightarrow>
        get_second_pass_opts_peakrms add sub fmt s =
          (s, Inl (FFmpegNormalizeError
                    ''Can only set adjustment for peak and RMS normalization'')))"
  by (simp add: get_second_pass_opts_peakrms_def bind_def seq_def get_def ret_def raise_def
      lift_def operand_def log_record_def when_do_def settings_def settings_ref_def)

theorem peakrms_adjustment_witness:
  "exact_add (Fin 0) (Fin 2) = Inr (Fin 2)
   \<and> get_second_pass_opts_peakrms exact_add exact_sub (\<lambda>_. ''?'')
     (example_state (example_settings\<lparr> normalization_type := ''peak'', target_level := Fin 2 \<rparr>)
        \<lparr> ebu = None, mean = Some (Fin (- 23)), max' = Some (Fin (- 1)) \<rparr>) =
     ((example_state (example_settings\<lparr> normalization_type := ''peak'', target_level := Fin 2 \<rparr>)
        \<lparr> ebu = None, mean = Some (Fin (- 23)), max' = Some (Fin (- 1)) \<rparr>)
        \<lparr> logger := [(INFO, ''Adjusting stream {} by {} dB to reach {}'',
                       [AInt 1, ANum (Fin 3), ANum (Fin 2)]),
                      (WARNING, ''Adjusting will lead to clipping of {} dB'', [ANum (Fin 2)])] \<rparr>,
      Inr ''volume=?dB'')
   \<and> get_second_pass_opts_peakrms exact_add exact_sub (\<lambda>_. ''?'')
     (example_state (example_settings\<lparr> normalization_type := ''rms'', target_level := Fin (- 6) \<rparr>)
        \<lparr> ebu = None, mean = Some (Fin (- 23)), max' = Some (Fin (- 17)) \<rparr>) =
     ((example_state (example_settings\<lparr> normalization_type := ''rms'', target_level := Fin (- 6) \<rparr>)
        \<lparr> ebu = None, mean = Some (Fin (- 23)), max' = Some (Fin (- 17)) \<rparr>)
        \<lparr> logger := [(INFO, ''Adjusting stream {} by {} dB to reach {}'',
                       [AInt 1, ANum (Fin 17), ANum (Fin (- 6))])] \<rparr>,
      Inr ''volume=?dB'')
   \<and> get_second_pass_opts_peakrms exact_add exact_sub (\<lambda>_. ''?'')
     (example_state example_settings
        \<lparr> ebu = None, mean = Some (Fin (- 23)), max' = Some (Fin (- 1)) \<rparr>) =
     (example_state example_settings
        \<lparr> ebu = None, mean = Some (Fin (- 23)), max' = Some (Fin (- 1)) \<rparr>,
      Inl (FFmpegNormalizeError ''Can only set adjustment for peak and RMS normalization''))"
proof -
  let ?p = "example_state (example_settings\<lparr> normalization_type := ''peak'', target_level := Fin 2 \<rparr>)
        \<lparr> ebu = None, mean = Some (Fin (- 23)), max' = Some (Fin (- 1)) \<rparr>"
  let ?r = "example_state (example_settings\<lparr> normalization_type := ''rms'', target_level := Fin (- 6) \<rparr>)
        \<lparr> ebu = None, mean = Some (Fin (- 23)), max' = Some (Fin (- 17)) \<rparr>"
  let ?e = "example_state example_settings
        \<lparr> ebu = None, mean = Some (Fin (- 23)), max' = Some (Fin (- 1)) \<rparr>"
  have a: "get_second_pass_opts_peakrms exact_add exact_sub (\<lambda>_. ''?'') ?p =
     (?p\<lparr> logger := [(INFO, ''Adjusting stream {} by {} dB to reach {}'',
                       [AInt 1, ANum (Fin 3), ANum (Fin 2)]),
                      (WARNING, ''Adjusting will lead to clipping of {} dB'', [ANum (Fin 2)])] \<rparr>,
      Inr ''volume=?dB'')"
    using peakrms_adjustment [of ?p "Fin (- 23)" "Fin (- 1)" exact_add "Fin 2" exact_sub
        "Fin 3" "Fin 2" "\<lambda>_. ''?''"]
    by (simp add: example_state_simps exact_sub_def py_gt_def)
  have b: "get_second_pass_opts_peakrms exact_add exact_sub (\<lambda>_. ''?'') ?r =
     (?r\<lparr> logger := [(INFO, ''Adjusting stream {} by {} dB to reach {}'',
                       [AInt 1, ANum (Fin 17), ANum (Fin (- 6))])] \<rparr>,
      Inr ''volume=?dB'')"
    using peakrms_adjustment [of ?r "Fin (- 23)" "Fin (- 17)" exact_add _ exact_sub
        "Fin 17" "Fin 0" "\<lambda>_. ''?''"]
    by (simp add: example_state_simps exact_sub_def py_gt_def)
  have c: "get_second_pass_opts_peakrms exact_add exact_sub (\<lambda>_. ''?'') ?e =
     (?e, Inl (FFmpegNormalizeError ''Can only set adjustment for peak and RMS normalization''))"
    using peakrms_adjustment [of ?e "Fin (- 23)" "Fin (- 1)" exact_add _ exact_sub _ _
        "\<lambda>_. ''?''"]
    by (simp add: example_state_simps example_settings_def)
  from a b c show ?thesis by simp
qed

section \<open>The parameters of the EBU second pass\<close>


lemma decide_runs:
  assumes e: "ebu (loudness_statistics (self s)) = Some d"
    and i: "map_of d ''input_i'' = Some vi" "py_float sf vi = Inr xi"
    and l: "map_of d ''input_lra'' = Some vl" "as_number vl = Inr lra"
  shows "decide_dynamic_mode sf s =
    (let c = settings s;
         target = (if keep_loudness_range_target c then lra else loudness_range_target c);
         fallback = (py_lt target lra \<and> \<not> dynamic c);
         will_use_dynamic_mode = (dynamic c \<or> fallback)
     in (s\<lparr> self := (self s)\<lparr> loudness_statistics := (loudness_statistics (self s))
                  \<lparr> ebu := Some (if py_gt xi (Fin 0)
                                  then AList.update ''input_i'' (JInt 0) d else d) \<rparr> \<rparr>,
             heap := (if keep_loudness_range_target c
                      then (heap s)(settings_ref s := c\<lparr> loudness_range_target := lra \<rparr>)
                      else heap s),
             logger := logger s
               @ (if py_gt xi (Fin 0) then [(WARNING, capping_warning, [AJson vi])] else [])
               @ (if keep_loudness_range_target c then [(DEBUG, keeping_message, [])] else [])
               @ (if fallback then [(WARNING, fallback_warning, [ANum lra, ANum target])] else [])
               @ (if will_use_dynamic_mode
                     \<and> (FFmpegNormalize.sample_rate (own_settings s) = None
                        \<or> FFmpegNormalize.sample_rate (own_settings s) = Some 0)
                  then [(WARNING, sample_rate_warning, [])] else []) \<rparr>,
         Inr will_use_dynamic_mode))"
proof -
  have ne: "d \<noteq> []" using i(1) by auto
  have l': "map_of (AList.update ''input_i'' (JInt 0) d) ''input_lra'' = Some vl"
    using l(1) by (simp add: update_conv')
  show ?thesis
    using e i l l' ne
    by (cases "py_gt xi (Fin 0)"; cases "keep_loudness_range_target (settings s)";
        cases "dynamic (settings s)")
       (simp_all add: decide_dynamic_mode_def bind_def seq_def get_def ret_def raise_def
          lift_def when_do_def read_float_def read_number_def read_stat_def write_stat_def
          log_record_def set_loudness_range_target_def getitem_def settings_def
          settings_ref_def own_settings_def Let_def)
qed


lemma number_floats: "is_number v \<Longrightarrow> \<exists>x. py_float sf v = Inr x \<and> as_number v = Inr x"
  by (cases v) simp_all

lemma validated_lookup:
  "validated d \<Longrightarrow> k \<in> set required_keys \<Longrightarrow>
     \<exists>v x. map_of d k = Some v \<and> py_float sf v = Inr x \<and> as_number v = Inr x"
proof -
  assume "validated d" "k \<in> set required_keys"
  then have "case map_of d k of None \<Rightarrow> False | Some v \<Rightarrow> is_number v"
    by (simp add: validated_def list_all_iff)
  then obtain v where "map_of d k = Some v" "is_number v"
    by (cases "map_of d k") simp_all
  with number_floats [of v sf] show ?thesis by auto
qed

lemma validated_update: "validated d \<Longrightarrow> validated (AList.update ''input_i'' (JInt 0) d)"
  by (auto simp: validated_def list_all_iff update_conv' split: option.splits)

lemma constrain_log_shape:
  "fst (constrain x lo hi nm) = []
   \<or> (\<exists>args. fst (constrain x lo hi nm) =
         [(WARNING, ''Constraining {} to range of [{}, {}]: {} -> {}'', args)])"
  by (cases nm) (simp_all add: constrain_def Let_def)

lemma constrain_log:
  "\<forall>r\<in>set (fst (constrain x lo hi nm)).
     fst r = WARNING \<and> fst (snd r) = ''Constraining {} to range of [{}, {}]: {} -> {}''"
  using constrain_log_shape [of x lo hi nm] by (elim disjE exE) simp_all

lemma constrained_ok:
  "ebu (loudness_statistics (self s)) = Some d \<Longrightarrow> map_of d key = Some v \<Longrightarrow>
   py_float sf v = Inr x \<Longrightarrow> \<not> py_gt lo hi \<Longrightarrow>
     constrained sf key lo hi s =
       (s\<lparr> logger := logger s @ fst (constrain x lo hi (Some key)) \<rparr>,
        Inr (py_max (py_min x hi) lo))"
  by (simp add: constrained_def read_float_def read_stat_def bind_def lift_def getitem_def
      logged_def constrain_def Let_def)

lemma build_opts_runs:
  assumes e: "ebu (loudness_statistics (self s)) = Some d" and v: "validated d"
  shows "\<exists>L off mi ml mt mth.
    build_opts sf s =
      (s\<lparr> logger := logger s @ L \<rparr>,
       Inr ([(''i'', ONum (target_level (settings s))),
             (''lra'', ONum (loudness_range_target (settings s))),
             (''tp'', ONum (true_peak (settings s))),
             (''offset'', ONum off),
             (''measured_i'', ONum mi),
             (''measured_lra'', ONum ml),
             (''measured_tp'', ONum mt),
             (''measured_thresh'', ONum mth),
             (''linear'', OStr (if dynamic (settings s) then ''false'' else ''true'')),
             (''print_format'', OStr ''json'')]
            @ (if dual_mono (settings s) then [(''dual_mono'', OStr ''true'')] else [])))
    \<and> (\<forall>r\<in>set L. fst r = WARNING
          \<and> fst (snd r) = ''Constraining {} to range of [{}, {}]: {} -> {}'')"
proof -
  from validated_lookup [OF v, of "''target_offset''" sf]
  obtain v1 x1 where k1: "map_of d ''target_offset'' = Some v1" "py_float sf v1 = Inr x1"
    by (auto simp: required_keys_def)
  from validated_lookup [OF v, of "''input_i''" sf]
  obtain v2 x2 where k2: "map_of d ''input_i'' = Some v2" "py_float sf v2 = Inr x2"
    by (auto simp: required_keys_def)
  from validated_lookup [OF v, of "''input_lra''" sf]
  obtain v3 x3 where k3: "map_of d ''input_lra'' = Some v3" "py_float sf v3 = Inr x3"
    by (auto simp: required_keys_def)
  from validated_lookup [OF v, of "''input_tp''" sf]
  obtain v4 x4 where k4: "map_of d ''input_tp'' = Some v4" "py_float sf v4 = Inr x4"
    by (auto simp: required_keys_def)
  from validated_lookup [OF v, of "''input_thresh''" sf]
  obtain v5 x5 where k5: "map_of d ''input_thresh'' = Some v5" "py_float sf v5 = Inr x5"
    by (auto simp: required_keys_def)
  let ?L = "fst (constrain x1 (Fin (- 99)) (Fin 99) (Some ''target_offset''))
          @ fst (constrain x2 (Fin (- 99)) (Fin 0) (Some ''input_i''))
          @ fst (constrain x3 (Fin 0) (Fin 99) (Some ''input_lra''))
          @ fst (constrain x4 (Fin (- 99)) (Fin 99) (Some ''input_tp''))
          @ fst (constrain x5 (Fin (- 99)) (Fin 0) (Some ''input_thresh''))"
  have b: "\<not> py_gt (Fin (- 99)) (Fin 99)" "\<not> py_gt (Fin (- 99)) (Fin 0)" "\<not> py_gt (Fin 0) (Fin 99)"
    by (simp_all add: py_gt_def)
  have s: "\<And>L. ebu (loudness_statistics (self (s\<lparr> logger := L \<rparr>))) = Some d"
    using e by simp
  have "build_opts sf s =
      (s\<lparr> logger := logger s @ ?L \<rparr>,
       Inr ([(''i'', ONum (target_level (settings s))),
             (''lra'', ONum (loudness_range_target (settings s))),
             (''tp'', ONum (true_peak (settings s))),
             (''offset'', ONum (py_max (py_min x1 (Fin 99)) (Fin (- 99)))),
             (''measured_i'', ONum (py_max (py_min x2 (Fin 0)) (Fin (- 99)))),
             (''measured_lra'', ONum (py_max (py_min x3 (Fin 99)) (Fin 0))),
             (''measured_tp'', ONum (py_max (py_min x4 (Fin 99)) (Fin (- 99)))),
             (''measured_thresh'', ONum (py_max (py_min x5 (Fin 0)) (Fin (- 99)))),
             (''linear'', OStr (if dynamic (settings s) then ''false'' else ''true'')),
             (''print_format'', OStr ''json'')]
            @ (if dual_mono (settings s) then [(''dual_mono'', OStr ''true'')] else [])))"
    unfolding build_opts_def
    by (simp add: bind_def get_def ret_def constrained_ok [OF e k1 b(1)]
        constrained_ok [OF s k2 b(2)] constrained_ok [OF s k3 b(3)]
        constrained_ok [OF s k4 b(1)] constrained_ok [OF s k5 b(2)] del: append_assoc)
  moreover have "\<forall>r\<in>set ?L. fst r = WARNING
          \<and> fst (snd r) = ''Constraining {} to range of [{}, {}]: {} -> {}''"
    by (simp only: set_append ball_Un) (intro conjI constrain_log)
  ultimately show ?thesis by blast
qed


lemma planner_runs:
  assumes e: "ebu (loudness_statistics (self s)) = Some d" and v: "validated d"
    and l: "map_of d ''input_lra'' = Some vl" "as_number vl = Inr lra"
  shows "\<exists>s1 w L opts.
     decide_dynamic_mode sf s = (s1, Inr w)
     \<and> second_pass_opts_ebu sf s = (s1\<lparr> logger := logger s1 @ L \<rparr>, Inr opts)
     \<and> get_second_pass_opts_ebu sf f s =
         (s1\<lparr> logger := logger s1 @ L \<rparr>, Inr (''loudnorm='' @ f opts))
     \<and> (\<forall>r\<in>set L. fst r = WARNING
           \<and> fst (snd r) = ''Constraining {} to range of [{}, {}]: {} -> {}'')
     \<and> map_of opts ''lra'' = Some (ONum (loudness_range_target (settings s1)))
     \<and> map_of opts ''linear'' = Some (OStr (if dynamic (settings s) then ''false'' else ''true''))
     \<and> settings_ref s1 = settings_ref s
     \<and> heap s1 = (if keep_loudness_range_target (settings s)
                  then (heap s)(settings_ref s := (settings s)\<lparr> loudness_range_target := lra \<rparr>)
                  else heap s)
     \<and> (let c = settings s;
             target = (if keep_loudness_range_target c then lra else loudness_range_target c);
             fallback = (py_lt target lra \<and> \<not> dynamic c)
         in w = (dynamic c \<or> fallback)
            \<and> (\<exists>A B. logger s1 = logger s @ A
                   @ (if keep_loudness_range_target c then [(DEBUG, keeping_message, [])] else [])
                   @ (if fallback then [(WARNING, fallback_warning, [ANum lra, ANum target])] else [])
                   @ B
                 \<and> (\<forall>r\<in>set A. fst (snd r) = capping_warning)
                 \<and> (\<forall>r\<in>set B. fst (snd r) = sample_rate_warning)))"
proof -
  from validated_lookup [OF v, of "''input_i''" sf]
  obtain vi xi where i: "map_of d ''input_i'' = Some vi" "py_float sf vi = Inr xi"
    by (auto simp: required_keys_def)
  note dr = decide_runs [OF e i l]
  define s1 where "s1 = fst (decide_dynamic_mode sf s)"
  define w where "w = (dynamic (settings s)
      \<or> (py_lt (if keep_loudness_range_target (settings s) then lra
                 else loudness_range_target (settings s)) lra \<and> \<not> dynamic (settings s)))"
  have d1: "decide_dynamic_mode sf s = (s1, Inr w)"
    unfolding s1_def w_def dr by (simp add: Let_def)
  let ?d1 = "if py_gt xi (Fin 0) then AList.update ''input_i'' (JInt 0) d else d"
  have e1: "ebu (loudness_statistics (self s1)) = Some ?d1"
    unfolding s1_def dr by (simp add: Let_def)
  have v1: "validated ?d1"
    using v validated_update by simp
  have ref: "settings_ref s1 = settings_ref s"
    unfolding s1_def dr by (simp add: Let_def settings_ref_def)
  have hp: "heap s1 = (if keep_loudness_range_target (settings s)
                  then (heap s)(settings_ref s := (settings s)\<lparr> loudness_range_target := lra \<rparr>)
                  else heap s)"
    unfolding s1_def dr by (simp add: Let_def)
  have dyn: "dynamic (settings s1) = dynamic (settings s)"
    using ref hp by (simp add: settings_def)
  have lg: "logger s1 = logger s
               @ (if py_gt xi (Fin 0) then [(WARNING, capping_warning, [AJson vi])] else [])
               @ (if keep_loudness_range_target (settings s) then [(DEBUG, keeping_message, [])] else [])
               @ (if py_lt (if keep_loudness_range_target (settings s) then lra
                            else loudness_range_target (settings s)) lra \<and> \<not> dynamic (settings s)
                  then [(WARNING, fallback_warning, [ANum lra,
                          ANum (if keep_loudness_range_target (settings s) then lra
                                else loudness_range_target (settings s))])] else [])
               @ (if w \<and> (FFmpegNormalize.sample_rate (own_settings s) = None
                        \<or> FFmpegNormalize.sample_rate (own_settings s) = Some 0)
                  then [(WARNING, sample_rate_warning, [])] else [])"
    unfolding s1_def dr w_def by (simp add: Let_def)
  from build_opts_runs [OF e1 v1, of sf]
  obtain L off mi ml mt mth where
    b: "build_opts sf s1 =
      (s1\<lparr> logger := logger s1 @ L \<rparr>,
       Inr ([(''i'', ONum (target_level (settings s1))),
             (''lra'', ONum (loudness_range_target (settings s1))),
             (''tp'', ONum (true_peak (settings s1))),
             (''offset'', ONum off),
             (''measured_i'', ONum mi),
             (''measured_lra'', ONum ml),
             (''measured_tp'', ONum mt),
             (''measured_thresh'', ONum mth),
             (''linear'', OStr (if dynamic (settings s1) then ''false'' else ''true'')),
             (''print_format'', OStr ''json'')]
            @ (if dual_mono (settings s1) then [(''dual_mono'', OStr ''true'')] else [])))"
    and bl: "\<forall>r\<in>set L. fst r = WARNING
          \<and> fst (snd r) = ''Constraining {} to range of [{}, {}]: {} -> {}''"
    by blast
  let ?opts = "[(''i'', ONum (target_level (settings s1))),
             (''lra'', ONum (loudness_range_target (settings s1))),
             (''tp'', ONum (true_peak (settings s1))),
             (''offset'', ONum off),
             (''measured_i'', ONum mi),
             (''measured_lra'', ONum ml),
             (''measured_tp'', ONum mt),
             (''measured_thresh'', ONum mth),
             (''linear'', OStr (if dynamic (settings s1) then ''false'' else ''true'')),
             (''print_format'', OStr ''json'')]
            @ (if dual_mono (settings s1) then [(''dual_mono'', OStr ''true'')] else [])"
  have sp: "second_pass_opts_ebu sf s = (s1\<lparr> logger := logger s1 @ L \<rparr>, Inr ?opts)"
    using d1 b by (simp add: second_pass_opts_ebu_def bind_def)
  have gp: "get_second_pass_opts_ebu sf f s =
         (s1\<lparr> logger := logger s1 @ L \<rparr>, Inr (''loudnorm='' @ f ?opts))"
    using sp by (simp add: get_second_pass_opts_ebu_def bind_def ret_def)
  have o1: "map_of ?opts ''lra'' = Some (ONum (loudness_range_target (settings s1)))"
    by simp
  have o2: "map_of ?opts ''linear'' = Some (OStr (if dynamic (settings s) then ''false'' else ''true''))"
    using dyn by simp
  have lg': "let c = settings s;
             target = (if keep_loudness_range_target c then lra else loudness_range_target c);
             fallback = (py_lt target lra \<and> \<not> dynamic c)
         in w = (dynamic c \<or> fallback)
            \<and> (\<exists>A B. logger s1 = logger s @ A
                   @ (if keep_loudness_range_target c then [(DEBUG, keeping_message, [])] else [])
                   @ (if fallback then [(WARNING, fallback_warning, [ANum lra, ANum target])] else [])
                   @ B
                 \<and> (\<forall>r\<in>set A. fst (snd r) = capping_warning)
                 \<and> (\<forall>r\<in>set B. fst (snd r) = sample_rate_warning))"
    unfolding Let_def
  proof (intro conjI)
    show "w = (dynamic (settings s)
      \<or> (py_lt (if keep_loudness_range_target (settings s) then lra
                 else loudness_range_target (settings s)) lra \<and> \<not> dynamic (settings s)))"
      by (simp add: w_def)
    show "\<exists>A B. logger s1 = logger s @ A
                   @ (if keep_loudness_range_target (settings s) then [(DEBUG, keeping_message, [])] else [])
                   @ (if py_lt (if keep_loudness_range_target (settings s) then lra
                            else loudness_range_target (settings s)) lra \<and> \<not> dynamic (settings s)
                      then [(WARNING, fallback_warning, [ANum lra,
                              ANum (if keep_loudness_range_target (settings s) then lra
                                    else loudness_range_target (settings s))])] else [])
                   @ B
                 \<and> (\<forall>r\<in>set A. fst (snd r) = capping_warning)
                 \<and> (\<forall>r\<in>set B. fst (snd r) = sample_rate_warning)"
      apply (rule exI [of _ "if py_gt xi (Fin 0) then [(WARNING, capping_warning, [AJson vi])] else []"])
      apply (rule exI [of _ "if w \<and> (FFmpegNormalize.sample_rate (own_settings s) = None
                        \<or> FFmpegNormalize.sample_rate (own_settings s) = Some 0)
                  then [(WARNING, sample_rate_warning, [])] else []"])
      apply (intro conjI)
        apply (rule lg)
       apply simp
      apply simp
      done
  qed
  from d1 sp gp bl o1 o2 ref hp lg' show ?thesis
    by blast
qed


lemma message_texts_differ:
  "capping_warning \<noteq> fallback_warning" "keeping_message \<noteq> fallback_warning"
  "sample_rate_warning \<noteq> fallback_warning"
  "''Constraining {} to range of [{}, {}]: {} -> {}'' \<noteq> fallback_warning"
  by (simp_all add: capping_warning_def keeping_message_def sample_rate_warning_def
      fallback_warning_def)

text \<open>
  Claim C2. When the settings have \<^verbatim>\<open>keep_loudness_range_target\<close> set and the statistics
  hold a validated report whose \<^verbatim>\<open>input_lra\<close> is \<open>lra\<close>, the planner returns a filter
  string; the option \<^verbatim>\<open>lra\<close> of its parameter set is \<open>lra\<close>, not the target the caller
  gave; after the call the shared settings object in the store holds \<open>lra\<close> as its
  \<^verbatim>\<open>loudness_range_target\<close> and is otherwise as before, as is every other object of the
  store. The overwrite comes before the comparison of target and measured range: the
  call logs no fallback warning.
\<close>

theorem keep_range_overrides_target:
  assumes e: "ebu (loudness_statistics (self s)) = Some d" and v: "validated d"
    and l: "map_of d ''input_lra'' = Some vl" "as_number vl = Inr lra"
    and k: "keep_loudness_range_target (settings s)"
  shows "\<exists>s' opts new.
     get_second_pass_opts_ebu sf f s = (s', Inr (''loudnorm='' @ f opts))
     \<and> second_pass_opts_ebu sf s = (s', Inr opts)
     \<and> map_of opts ''lra'' = Some (ONum lra)
     \<and> heap s' (settings_ref s) = (settings s)\<lparr> loudness_range_target := lra \<rparr>
     \<and> (\<forall>r. r \<noteq> settings_ref s \<longrightarrow> heap s' r = heap s r)
     \<and> logger s' = logger s @ new
     \<and> (\<forall>r\<in>set new. fst (snd r) \<noteq> fallback_warning)"
proof -
  from planner_runs [OF e v l, of sf f]
  obtain s1 w L opts A B where
    sp: "second_pass_opts_ebu sf s = (s1\<lparr> logger := logger s1 @ L \<rparr>, Inr opts)"
    and gp: "get_second_pass_opts_ebu sf f s =
         (s1\<lparr> logger := logger s1 @ L \<rparr>, Inr (''loudnorm='' @ f opts))"
    and bl: "\<forall>r\<in>set L. fst r = WARNING
           \<and> fst (snd r) = ''Constraining {} to range of [{}, {}]: {} -> {}''"
    and o1: "map_of opts ''lra'' = Some (ONum (loudness_range_target (settings s1)))"
    and ref: "settings_ref s1 = settings_ref s"
    and hp: "heap s1 = (if keep_loudness_range_target (settings s)
                  then (heap s)(settings_ref s := (settings s)\<lparr> loudness_range_target := lra \<rparr>)
                  else heap s)"
    and lg: "logger s1 = logger s @ A
                   @ (if keep_loudness_range_target (settings s) then [(DEBUG, keeping_message, [])] else [])
                   @ (if py_lt (if keep_loudness_range_target (settings s) then lra
                            else loudness_range_target (settings s)) lra \<and> \<not> dynamic (settings s)
                      then [(WARNING, fallback_warning, [ANum lra,
                              ANum (if keep_loudness_range_target (settings s) then lra
                                    else loudness_range_target (settings s))])] else [])
                   @ B"
    and la: "\<forall>r\<in>set A. fst (snd r) = capping_warning"
    and lb: "\<forall>r\<in>set B. fst (snd r) = sample_rate_warning"
    by (auto simp: Let_def)
  have irr: "\<not> py_lt lra lra"
    by (cases lra) simp_all
  let ?s' = "s1\<lparr> logger := logger s1 @ L \<rparr>"
  let ?new = "A @ [(DEBUG, keeping_message, [])] @ B @ L"
  have "map_of opts ''lra'' = Some (ONum lra)"
    using o1 ref hp k by (simp add: settings_def)
  moreover have "heap ?s' (settings_ref s) = (settings s)\<lparr> loudness_range_target := lra \<rparr>"
    using hp k by simp
  moreover have "\<forall>r. r \<noteq> settings_ref s \<longrightarrow> heap ?s' r = heap s r"
    using hp k by simp
  moreover have "logger ?s' = logger s @ ?new"
    using lg k irr by simp
  moreover have "\<forall>r\<in>set ?new. fst (snd r) \<noteq> fallback_warning"
    using la lb bl message_texts_differ by auto
  ultimately show ?thesis
    using sp gp by blast
qed

theorem keep_range_overrides_target_witness:
  "\<exists>s' opts.
     get_second_pass_opts_ebu example_float (\<lambda>_. [])
         (example_state (example_settings\<lparr> keep_loudness_range_target := True \<rparr>)
            \<lparr> ebu = Some example_measured, mean = None, max' = None \<rparr>) = (s', Inr ''loudnorm='')
     \<and> second_pass_opts_ebu example_float
         (example_state (example_settings\<lparr> keep_loudness_range_target := True \<rparr>)
            \<lparr> ebu = Some example_measured, mean = None, max' = None \<rparr>) = (s', Inr opts)
     \<and> map_of opts ''lra'' = Some (ONum (Fin 12))
     \<and> loudness_range_target example_settings = Fin 7
     \<and> loudness_range_target (heap s' 0) = Fin 12
     \<and> (\<forall>r\<in>set (logger s'). fst (snd r) \<noteq> fallback_warning)"
proof -
  let ?c = "example_settings\<lparr> keep_loudness_range_target := True \<rparr>"
  let ?s = "example_state ?c \<lparr> ebu = Some example_measured, mean = None, max' = None \<rparr>"
  have e: "ebu (loudness_statistics (self ?s)) = Some example_measured"
    by (simp add: example_state_simps)
  have l: "map_of example_measured ''input_lra'' = Some (JFloat (Fin 12))"
    "as_number (JFloat (Fin 12)) = Inr (Fin 12)"
    by (simp_all add: example_measured_def)
  have k: "keep_loudness_range_target (settings ?s)"
    by (simp add: example_state_simps)
  from keep_range_overrides_target [OF e example_measured_validated l k,
      of example_float "\<lambda>_. []"]
  obtain s' opts new where
    "get_second_pass_opts_ebu example_float (\<lambda>_. []) ?s = (s', Inr (''loudnorm='' @ []))"
    "second_pass_opts_ebu example_float ?s = (s', Inr opts)"
    "map_of opts ''lra'' = Some (ONum (Fin 12))"
    "heap s' (settings_ref ?s) = (settings ?s)\<lparr> loudness_range_target := Fin 12 \<rparr>"
    "logger s' = logger ?s @ new"
    "\<forall>r\<in>set new. fst (snd r) \<noteq> fallback_warning"
    by blast
  then show ?thesis
    by (auto simp: example_state_simps example_settings_def)
qed

text \<open>
  Claim C1, as the code has it. For a validated report with \<^verbatim>\<open>input_lra\<close> \<open>lra\<close> the
  planner returns a filter string whose option \<^verbatim>\<open>linear\<close> is the negation of the
  caller's setting \<^verbatim>\<open>dynamic\<close>. When the target range (the measured one under
  \<^verbatim>\<open>keep_loudness_range_target\<close>) is less than \<open>lra\<close> and \<^verbatim>\<open>dynamic\<close> is not set, the
  local flag \<^verbatim>\<open>will_use_dynamic_mode\<close> becomes true and the fallback warning is logged,
  and the option \<^verbatim>\<open>linear\<close> is "true".
\<close>

theorem linear_flag_follows_setting:
  assumes e: "ebu (loudness_statistics (self s)) = Some d" and v: "validated d"
    and l: "map_of d ''input_lra'' = Some vl" "as_number vl = Inr lra"
  shows "\<exists>s1 w s' opts new.
     decide_dynamic_mode sf s = (s1, Inr w)
     \<and> get_second_pass_opts_ebu sf f s = (s', Inr (''loudnorm='' @ f opts))
     \<and> second_pass_opts_ebu sf s = (s', Inr opts)
     \<and> logger s' = logger s @ new
     \<and> map_of opts ''linear'' = Some (OStr (if dynamic (settings s) then ''false'' else ''true''))
     \<and> (py_lt (if keep_loudness_range_target (settings s) then lra
                else loudness_range_target (settings s)) lra
          \<and> \<not> dynamic (settings s) \<longrightarrow>
        w \<and> (WARNING, fallback_warning, [ANum lra, ANum (loudness_range_target (settings s))])
              \<in> set new
          \<and> map_of opts ''linear'' = Some (OStr ''true''))"
proof -
  from planner_runs [OF e v l, of sf f]
  obtain s1 w L opts A B where
    d1: "decide_dynamic_mode sf s = (s1, Inr w)"
    and sp: "second_pass_opts_ebu sf s = (s1\<lparr> logger := logger s1 @ L \<rparr>, Inr opts)"
    and gp: "get_second_pass_opts_ebu sf f s =
         (s1\<lparr> logger := logger s1 @ L \<rparr>, Inr (''loudnorm='' @ f opts))"
    and o2: "map_of opts ''linear'' = Some (OStr (if dynamic (settings s) then ''false'' else ''true''))"
    and w: "w = (dynamic (settings s)
      \<or> (py_lt (if keep_loudness_range_target (settings s) then lra
                 else loudness_range_target (settings s)) lra \<and> \<not> dynamic (settings s)))"
    and lg: "logger s1 = logger s @ A
                   @ (if keep_loudness_range_target (settings s) then [(DEBUG, keeping_message, [])] else [])
                   @ (if py_lt (if keep_loudness_range_target (settings s) then lra
                            else loudness_range_target (settings s)) lra \<and> \<not> dynamic (settings s)
                      then [(WARNING, fallback_warning, [ANum lra,
                              ANum (if keep_loudness_range_target (settings s) then lra
                                    else loudness_range_target (settings s))])] else [])
                   @ B"
    by (auto simp: Let_def)
  have irr: "\<not> py_lt lra lra"
    by (cases lra) simp_all
  let ?s' = "s1\<lparr> logger := logger s1 @ L \<rparr>"
  let ?new = "A
                   @ (if keep_loudness_range_target (settings s) then [(DEBUG, keeping_message, [])] else [])
                   @ (if py_lt (if keep_loudness_range_target (settings s) then lra
                            else loudness_range_target (settings s)) lra \<and> \<not> dynamic (settings s)
                      then [(WARNING, fallback_warning, [ANum lra,
                              ANum (if keep_loudness_range_target (settings s) then lra
                                    else loudness_range_target (settings s))])] else [])
                   @ B @ L"
  have n: "logger ?s' = logger s @ ?new"
    using lg by simp
  have "py_lt (if keep_loudness_range_target (settings s) then lra
                else loudness_range_target (settings s)) lra
          \<and> \<not> dynamic (settings s) \<longrightarrow>
        w \<and> (WARNING, fallback_warning, [ANum lra, ANum (loudness_range_target (settings s))])
              \<in> set ?new
          \<and> map_of opts ''linear'' = Some (OStr ''true'')"
    using w o2 irr by (cases "keep_loudness_range_target (settings s)") auto
  with d1 sp gp n o2 show ?thesis
    by blast
qed

theorem linear_flag_follows_setting_witness:
  "\<exists>s1 s' opts new.
     decide_dynamic_mode example_float
       (example_state example_settings
          \<lparr> ebu = Some example_measured, mean = None, max' = None \<rparr>) = (s1, Inr True)
     \<and> get_second_pass_opts_ebu example_float (\<lambda>_. [])
         (example_state example_settings
            \<lparr> ebu = Some example_measured, mean = None, max' = None \<rparr>) = (s', Inr ''loudnorm='')
     \<and> second_pass_opts_ebu example_float
         (example_state example_settings
            \<lparr> ebu = Some example_measured, mean = None, max' = None \<rparr>) = (s', Inr opts)
     \<and> logger s' = new
     \<and> (WARNING, fallback_warning, [ANum (Fin 12), ANum (Fin 7)]) \<in> set new
     \<and> map_of opts ''linear'' = Some (OStr ''true'')"
proof -
  let ?s = "example_state example_settings
          \<lparr> ebu = Some example_measured, mean = None, max' = None \<rparr>"
  have e: "ebu (loudness_statistics (self ?s)) = Some example_measured"
    by (simp add: example_state_simps)
  have l: "map_of example_measured ''input_lra'' = Some (JFloat (Fin 12))"
    "as_number (JFloat (Fin 12)) = Inr (Fin 12)"
    by (simp_all add: example_measured_def)
  have h: "py_lt (if keep_loudness_range_target (settings ?s) then Fin 12
                  else loudness_range_target (settings ?s)) (Fin 12)
           \<and> \<not> dynamic (settings ?s)"
    by (simp add: example_state_simps example_settings_def)
  from linear_flag_follows_setting [OF e example_measured_validated l,
      of example_float "\<lambda>_. []"] h
  obtain s1 w s' opts new where
    "decide_dynamic_mode example_float ?s = (s1, Inr w)" "w"
    "get_second_pass_opts_ebu example_float (\<lambda>_. []) ?s = (s', Inr (''loudnorm='' @ []))"
    "second_pass_opts_ebu example_float ?s = (s', Inr opts)"
    "logger s' = logger ?s @ new"
    "(WARNING, fallback_warning, [ANum (Fin 12), ANum (loudness_range_target (settings ?s))])
       \<in> set new"
    "map_of opts ''linear'' = Some (OStr ''true'')"
    by blast
  then show ?thesis
    by (auto simp: example_state_simps example_settings_def)
qed

text \<open>
  Claim C1 as stated fails: with target range 7, measured range 12 and \<^verbatim>\<open>dynamic\<close> not
  set, the fallback warning is logged and the parameter set has \<^verbatim>\<open>linear\<close> "true".
\<close>

theorem linear_flag_counterexample:
  "py_lt (loudness_range_target example_settings) (Fin 12)
   \<and> \<not> dynamic example_settings
   \<and> snd (second_pass_opts_ebu example_float
        (example_state example_settings
           \<lparr> ebu = Some example_measured, mean = None, max' = None \<rparr>)) =
       Inr [(''i'', ONum (Fin (- 23))), (''lra'', ONum (Fin 7)),
            (''tp'', ONum (Fin (- 2))), (''offset'', ONum (Fin 99)),
            (''measured_i'', ONum (Fin (- 27))),
            (''measured_lra'', ONum (Fin 12)),
            (''measured_tp'', ONum (Fin (- 4))),
            (''measured_thresh'', ONum (Fin (- 38))),
            (''linear'', OStr ''true''), (''print_format'', OStr ''json'')]
   \<and> logger (fst (second_pass_opts_ebu example_float
        (example_state example_settings
           \<lparr> ebu = Some example_measured, mean = None, max' = None \<rparr>))) =
       [(WARNING, fallback_warning, [ANum (Fin 12), ANum (Fin 7)]),
        (WARNING, sample_rate_warning, []),
        (WARNING, ''Constraining {} to range of [{}, {}]: {} -> {}'',
         [AStr ''target_offset'', ANum (Fin (- 99)), ANum (Fin 99), ANum (Fin 150),
          ANum (Fin 99)])]"
  by (simp add: planner_defs example_defs example_measured_def)

end
